theory Spec2Isabelle
  imports Main "HOL-Library.Sublist"
begin

section \<open>Python values and exceptions\<close>

text \<open>
  The two scripts \<^verbatim>\<open>create_ec2.py\<close> and \<^verbatim>\<open>list_ec2.py\<close> talk to the EC2 service through
  boto3. The only failure of a service call that the source names is
  \<^verbatim>\<open>botocore.exceptions.ClientError\<close>; the handlers read it through \<^verbatim>\<open>str(e)\<close> only, so
  the exception is modelled by its text.
\<close>

datatype client_error = ClientError string

fun str :: "client_error \<Rightarrow> string" where
  "str (ClientError msg) = msg"

text \<open>
  Exceptions that no handler of the scripts catches: a \<^verbatim>\<open>ClientError\<close> raised outside a
  \<^verbatim>\<open>try\<close>, the \<^verbatim>\<open>IndexError\<close> of \<^verbatim>\<open>xs[0]\<close> on an empty list, and the error of the
  \<^verbatim>\<open>wait_until_running\<close> waiter (not a \<^verbatim>\<open>ClientError\<close>).
\<close>

datatype exn = Uncaught client_error | IndexError | WaiterError string

datatype outcome = Returned | Raised exn

text \<open>Python's \<^verbatim>\<open>sub in text\<close> on strings: \<^verbatim>\<open>sub\<close> occurs in \<^verbatim>\<open>text\<close> as a contiguous run.\<close>

fun str_in :: "string \<Rightarrow> string \<Rightarrow> bool" where
  "str_in sub [] = (sub = [])"
| "str_in sub (c # cs) = (prefix sub (c # cs) \<or> str_in sub cs)"

text \<open>Truth value of an optional string: \<^verbatim>\<open>None\<close> and \<^verbatim>\<open>''\<close> are false.\<close>

fun truthy :: "string option \<Rightarrow> bool" where
  "truthy None = False"
| "truthy (Some v) = (v \<noteq> [])"

section \<open>Requests and responses of the EC2 service\<close>

record ec2_filter =
  Name :: string
  Values :: "string list"

record instance_type_info =
  InstanceType :: string

record describe_instance_types_response =
  InstanceTypes :: "instance_type_info list"

text \<open>
  A dictionary with the key \<^verbatim>\<open>GroupId\<close>: an entry of \<^verbatim>\<open>response['SecurityGroups']\<close>, and
  the response of \<^verbatim>\<open>ec2_client.create_security_group\<close>.
\<close>

record security_group =
  GroupId :: string

record describe_security_groups_response =
  SecurityGroups :: "security_group list"

record ip_range =
  CidrIp :: string

record ip_permission =
  IpProtocol :: string
  FromPort :: int
  ToPort :: int
  IpRanges :: "ip_range list"

record tag =
  Key :: string
  Value :: string

record tag_specification =
  ResourceType :: string
  Tags :: "tag list"

text \<open>The keyword arguments of \<^verbatim>\<open>ec2_resource.create_instances\<close>.\<close>

record create_instances_args =
  ImageId :: string
  MinCount :: int
  MaxCount :: int
  InstanceType_arg :: string
  KeyName :: string
  SecurityGroupIds :: "string list"
  TagSpecifications :: "tag_specification list"

text \<open>
  The attributes of a boto3 \<^verbatim>\<open>Instance\<close> that \<^verbatim>\<open>main\<close> reads after \<^verbatim>\<open>instance.load()\<close>:
  \<^verbatim>\<open>instance.state['Name']\<close> and \<^verbatim>\<open>instance.public_ip_address\<close> (\<^verbatim>\<open>None\<close> when the provider
  assigned no address).
\<close>

record instance_attributes =
  state_Name :: string
  public_ip_address :: "string option"

text \<open>The parts of a \<^verbatim>\<open>describe_instances\<close> response that \<^verbatim>\<open>list_ec2.py\<close> reads.\<close>

record instance_state =
  State_Name :: string

record instance_description =
  InstanceId :: string
  State :: instance_state
  InstanceType_desc :: string

record reservation =
  Instances :: "instance_description list"

record describe_instances_response =
  Reservations :: "reservation list"

text \<open>One entry of the log of service calls that a script issues, with its arguments.\<close>

datatype request =
    DescribeInstanceTypes "ec2_filter list" int
  | DescribeKeyPairs "string list"
  | DescribeSecurityGroups "string list"
  | CreateSecurityGroup string string
  | AuthorizeSecurityGroupIngress string "ip_permission list"
  | CreateInstances create_instances_args
  | WaitUntilRunning string
  | Load string
  | DescribeInstances

text \<open>
  The service itself is not part of the repository: it is a parameter of the model. A
  provider over account states \<open>'w\<close> answers each operation with a \<^verbatim>\<open>ClientError\<close> or a
  response, and leaves a new account state.
\<close>

record 'w ec2 =
  api_describe_instance_types ::
    "'w \<Rightarrow> ec2_filter list \<Rightarrow> int \<Rightarrow> (client_error + describe_instance_types_response) \<times> 'w"
  api_describe_key_pairs ::
    "'w \<Rightarrow> string list \<Rightarrow> (client_error + unit) \<times> 'w"
  api_describe_security_groups ::
    "'w \<Rightarrow> string list \<Rightarrow> (client_error + describe_security_groups_response) \<times> 'w"
  api_create_security_group ::
    "'w \<Rightarrow> string \<Rightarrow> string \<Rightarrow> (client_error + security_group) \<times> 'w"
  api_authorize_security_group_ingress ::
    "'w \<Rightarrow> string \<Rightarrow> ip_permission list \<Rightarrow> (client_error + unit) \<times> 'w"
  api_create_instances ::
    "'w \<Rightarrow> create_instances_args \<Rightarrow> (client_error + string list) \<times> 'w"
  api_wait_until_running ::
    "'w \<Rightarrow> string \<Rightarrow> (string + unit) \<times> 'w"
  api_load ::
    "'w \<Rightarrow> string \<Rightarrow> (client_error + instance_attributes) \<times> 'w"
  api_describe_instances ::
    "'w \<Rightarrow> (client_error + describe_instances_response) \<times> 'w"

section \<open>The state a script runs in\<close>

text \<open>
  The account state of the provider, the lines printed so far (one entry for each call
  of \<^verbatim>\<open>print\<close>), the files of the working directory (name to content), and the log of
  service calls issued so far.
\<close>

record 'w state =
  world :: 'w
  stdout :: "string list"
  files :: "string \<rightharpoonup> string"
  calls :: "request list"

definition print :: "string \<Rightarrow> 'w state \<Rightarrow> 'w state" where
  "print line s = s\<lparr>stdout := stdout s @ [line]\<rparr>"

text \<open>Issuing one service call: the request is logged and the provider's answer is taken.\<close>

definition invoke :: "request \<Rightarrow> ('w \<Rightarrow> 'r \<times> 'w) \<Rightarrow> 'w state \<Rightarrow> 'r \<times> 'w state" where
  "invoke rq f s = (case f (world s) of (r, w') \<Rightarrow> (r, s\<lparr>world := w', calls := calls s @ [rq]\<rparr>))"

definition describe_instance_types ::
  "'w ec2 \<Rightarrow> ec2_filter list \<Rightarrow> int \<Rightarrow> 'w state
    \<Rightarrow> (client_error + describe_instance_types_response) \<times> 'w state" where
  "describe_instance_types p Filters MaxResults =
     invoke (DescribeInstanceTypes Filters MaxResults)
       (\<lambda>w. api_describe_instance_types p w Filters MaxResults)"

definition describe_key_pairs ::
  "'w ec2 \<Rightarrow> string list \<Rightarrow> 'w state \<Rightarrow> (client_error + unit) \<times> 'w state" where
  "describe_key_pairs p KeyNames =
     invoke (DescribeKeyPairs KeyNames) (\<lambda>w. api_describe_key_pairs p w KeyNames)"

definition describe_security_groups ::
  "'w ec2 \<Rightarrow> string list \<Rightarrow> 'w state
    \<Rightarrow> (client_error + describe_security_groups_response) \<times> 'w state" where
  "describe_security_groups p GroupNames =
     invoke (DescribeSecurityGroups GroupNames)
       (\<lambda>w. api_describe_security_groups p w GroupNames)"

definition create_security_group_call ::
  "'w ec2 \<Rightarrow> string \<Rightarrow> string \<Rightarrow> 'w state \<Rightarrow> (client_error + security_group) \<times> 'w state" where
  "create_security_group_call p GroupName Description =
     invoke (CreateSecurityGroup GroupName Description)
       (\<lambda>w. api_create_security_group p w GroupName Description)"

definition authorize_security_group_ingress ::
  "'w ec2 \<Rightarrow> string \<Rightarrow> ip_permission list \<Rightarrow> 'w state \<Rightarrow> (client_error + unit) \<times> 'w state" where
  "authorize_security_group_ingress p gid IpPermissions =
     invoke (AuthorizeSecurityGroupIngress gid IpPermissions)
       (\<lambda>w. api_authorize_security_group_ingress p w gid IpPermissions)"

definition create_instances ::
  "'w ec2 \<Rightarrow> create_instances_args \<Rightarrow> 'w state \<Rightarrow> (client_error + string list) \<times> 'w state" where
  "create_instances p args = invoke (CreateInstances args) (\<lambda>w. api_create_instances p w args)"

definition wait_until_running ::
  "'w ec2 \<Rightarrow> string \<Rightarrow> 'w state \<Rightarrow> (string + unit) \<times> 'w state" where
  "wait_until_running p iid = invoke (WaitUntilRunning iid) (\<lambda>w. api_wait_until_running p w iid)"

definition load ::
  "'w ec2 \<Rightarrow> string \<Rightarrow> 'w state \<Rightarrow> (client_error + instance_attributes) \<times> 'w state" where
  "load p iid = invoke (Load iid) (\<lambda>w. api_load p w iid)"

definition describe_instances ::
  "'w ec2 \<Rightarrow> 'w state \<Rightarrow> (client_error + describe_instances_response) \<times> 'w state" where
  "describe_instances p = invoke DescribeInstances (\<lambda>w. api_describe_instances p w)"

section \<open>create\_ec2.py\<close>

definition get_free_tier_instance_type :: "'w ec2 \<Rightarrow> 'w state \<Rightarrow> string \<times> 'w state" where
  "get_free_tier_instance_type p s =
     (case describe_instance_types p
             [\<lparr>Name = ''free-tier-eligible'', Values = [''true'']\<rparr>] 5 s of
        (Inr response, s1) \<Rightarrow>
          (case InstanceTypes response of
             t # _ \<Rightarrow>
               (let instance_type = InstanceType t
                in (instance_type,
                    print (''Found free-tier instance type: '' @ instance_type) s1))
           | [] \<Rightarrow>
               (''t3.micro'',
                print ''No free-tier instance types found, using t2.micro as fallback'' s1))
      | (Inl e, s1) \<Rightarrow>
          (''t3.micro'',
           print (''Error querying instance types: '' @ str e
                  @ '', using t2.micro as fallback'') s1))"

text \<open>\<^verbatim>\<open>os.path.exists\<close> on a file name of the working directory.\<close>

definition path_exists :: "'w state \<Rightarrow> string \<Rightarrow> bool" where
  "path_exists s path = (files s path \<noteq> None)"

text \<open>
  \<^verbatim>\<open>open(path, 'w')\<close> leaves the file empty, whatever it held; \<^verbatim>\<open>f.write(text)\<close> adds
  \<^verbatim>\<open>text\<close> at the end of it.
\<close>

definition open_w :: "string \<Rightarrow> 'w state \<Rightarrow> 'w state" where
  "open_w path s = s\<lparr>files := (files s)(path \<mapsto> [])\<rparr>"

definition f_write :: "string \<Rightarrow> string \<Rightarrow> 'w state \<Rightarrow> 'w state" where
  "f_write path text s =
     s\<lparr>files := (files s)(path \<mapsto> (case files s path of None \<Rightarrow> text | Some old \<Rightarrow> old @ text))\<rparr>"

abbreviation (input) apostrophe :: string where
  "apostrophe \<equiv> [CHR 0x27]"

text \<open>The signs \<^verbatim>\<open>U+26A0\<close> and \<^verbatim>\<open>U+274C\<close> of the messages, in UTF-8.\<close>

abbreviation (input) warning_sign :: string where
  "warning_sign \<equiv> [CHR 0xE2, CHR 0x9A, CHR 0xA0]"

abbreviation (input) cross_mark :: string where
  "cross_mark \<equiv> [CHR 0xE2, CHR 0x9D, CHR 0x8C]"

definition check_key_pair :: "'w ec2 \<Rightarrow> string \<Rightarrow> 'w state \<Rightarrow> bool \<times> 'w state" where
  "check_key_pair p key_name s =
     (case describe_key_pairs p [key_name] s of
        (Inr _, s1) \<Rightarrow>
          (let s2 = print (''Key pair '' @ apostrophe @ key_name @ apostrophe
                           @ '' found in AWS.'') s1;
               pem_file = key_name @ ''.pem'';
               s3 = (if path_exists s2 pem_file
                     then print (''Private key file '' @ apostrophe @ pem_file @ apostrophe
                                 @ '' found locally.'') s2
                     else print ''  You will need this file to connect to your instance via SSH.''
                            (print (warning_sign @ '' Warning: Private key file '' @ apostrophe
                                    @ pem_file @ apostrophe
                                    @ '' not found in current directory.'') s2))
           in (True, s3))
      | (Inl e, s1) \<Rightarrow>
          (if str_in ''InvalidKeyPair.NotFound'' (str e)
           then
             (let s2 = print (cross_mark @ '' ERROR: Key pair '' @ apostrophe @ key_name
                              @ apostrophe @ '' does not exist in AWS!'') s1;
                  s3 = print ''\<newline>Please create it first with:'' s2;
                  s4 = print (''aws ec2 create-key-pair --key-name '' @ key_name
                              @ '' --query 'KeyMaterial' --output text > '' @ key_name
                              @ ''.pem'') s3;
                  s5 = print (''\<newline>This will create '' @ key_name
                              @ ''.pem in your current directory'') s4
              in (False, s5))
           else (False, print (''Error checking key pair: '' @ str e) s1)))"

text \<open>
  The result is \<open>Inr\<close> of the returned value (\<^verbatim>\<open>None\<close> or the group identifier), or
  \<open>Inl\<close> of the exception that leaves the function: \<^verbatim>\<open>[0]\<close> on an empty
  \<^verbatim>\<open>response['SecurityGroups']\<close> raises \<^verbatim>\<open>IndexError\<close>, which \<^verbatim>\<open>except ClientError\<close> does
  not catch.
\<close>

definition create_security_group :: "'w ec2 \<Rightarrow> 'w state \<Rightarrow> (exn + string option) \<times> 'w state" where
  "create_security_group p s =
     (let group_name = ''python-sg-for-ssh'';
          description = ''Security group for EC2 instance created via Python''
      in case describe_security_groups p [group_name] s of
        (Inr response, s1) \<Rightarrow>
          (let s2 = print (''Security group '' @ apostrophe @ group_name @ apostrophe
                           @ '' already exists. Using it.'') s1
           in case SecurityGroups response of
                [] \<Rightarrow> (Inl IndexError, s2)
              | g # _ \<Rightarrow> (Inr (Some (GroupId g)), s2))
      | (Inl e, s1) \<Rightarrow>
          (if str_in ''InvalidGroup.NotFound'' (str e)
           then
             (let s2 = print (''Creating new security group: '' @ apostrophe @ group_name
                              @ apostrophe) s1
              in case create_security_group_call p group_name description s2 of
                (Inr response, s3) \<Rightarrow>
                  (let security_group_id = GroupId response;
                       s4 = print (''Security Group Created: '' @ security_group_id) s3
                   in case authorize_security_group_ingress p security_group_id
                             [\<lparr>IpProtocol = ''tcp'', FromPort = 22, ToPort = 22,
                               IpRanges = [\<lparr>CidrIp = ''0.0.0.0/0''\<rparr>]\<rparr>] s4 of
                        (Inr _, s5) \<Rightarrow>
                          (Inr (Some security_group_id),
                           print ''SSH rule added (Port 22 open to world).'' s5)
                      | (Inl sg_error, s5) \<Rightarrow>
                          (Inr None,
                           print (''Error creating security group: '' @ str sg_error) s5))
              | (Inl sg_error, s3) \<Rightarrow>
                  (Inr None, print (''Error creating security group: '' @ str sg_error) s3))
           else (Inr None, print (''Error checking for security group: '' @ str e) s1)))"

definition print_windows_connection_instructions ::
  "string \<Rightarrow> string option \<Rightarrow> 'w state \<Rightarrow> 'w state" where
  "print_windows_connection_instructions key_name public_ip s =
     (if \<not> truthy public_ip then s
      else
        (let ip = the public_ip;
             s = print (''\<newline>'' @ replicate 60 CHR ''='') s;
             s = print ''WINDOWS CONNECTION INSTRUCTIONS'' s;
             s = print (replicate 60 CHR ''='') s;
             s = print (''\<newline>Public IP: '' @ ip) s;
             s = print ''Username: ec2-user'' s;
             s = print (''Key file: '' @ key_name @ ''.pem'') s;
             s = print ''\<newline>Option 1: Using MobaXterm (Recommended for Windows)'' s;
             s = print ''  1. Download MobaXterm: https://mobaxterm.mobatek.net/'' s;
             s = print ''  2. Session -> SSH -> Enter the IP above'' s;
             s = print ''  3. Specify username: ec2-user'' s;
             s = print (''  4. Advanced SSH settings -> Use private key: '' @ key_name
                        @ ''.pem'') s;
             s = print ''\<newline>Option 2: Using PuTTY'' s;
             s = print ''  1. Convert .pem to .ppk using PuTTYgen'' s;
             s = print ''  2. Use PuTTY with the .ppk file'' s;
             s = print (''  3. Host: ec2-user@'' @ ip) s;
             s = print ''\<newline>Option 3: Using AWS Session Manager (No SSH client needed)'' s;
             s = print ''  1. aws ssm start-session --target your-instance-id'' s
         in s))"

definition main :: "'w ec2 \<Rightarrow> 'w state \<Rightarrow> outcome \<times> 'w state" where
  "main p s0 =
     (let s1 = print (replicate 60 CHR ''='') s0;
          s2 = print ''EC2 Instance Creator with Free-Tier Detection'' s1;
          s3 = print (replicate 60 CHR ''='') s2;
          key_name = ''my-python-key''
      in case check_key_pair p key_name s3 of
        (False, s4) \<Rightarrow> (Returned, print ''Failed due to missing key pair. Exiting.'' s4)
      | (True, s4) \<Rightarrow>
         (case get_free_tier_instance_type p s4 of
            (instance_type, s5) \<Rightarrow>
         (case create_security_group p s5 of
            (Inl x, s6) \<Rightarrow> (Raised x, s6)
          | (Inr sg, s6) \<Rightarrow>
         (if \<not> truthy sg
          then (Returned, print ''Failed to get a security group. Exiting.'' s6)
          else
         (let sg_id = the sg;
              ami_id = ''ami-0c02fb55956c7d316''
          in case create_instances p
                    \<lparr>ImageId = ami_id, MinCount = 1, MaxCount = 1,
                      InstanceType_arg = instance_type, KeyName = key_name,
                      SecurityGroupIds = [sg_id],
                      TagSpecifications =
                        [\<lparr>ResourceType = ''instance'',
                          Tags = [\<lparr>Key = ''Name'', Value = ''MyPythonInstance''\<rparr>]\<rparr>]\<rparr> s6 of
            (Inl e, s7) \<Rightarrow> (Returned, print (''Failed to launch instance: '' @ str e) s7)
          | (Inr instances, s7) \<Rightarrow>
         (case instances of
            [] \<Rightarrow> (Raised IndexError, s7)
          | instance_id # _ \<Rightarrow>
         (let s8 = print (''\<newline>'' @ replicate 50 CHR ''='') s7;
              s8 = print ''SUCCESS: EC2 Instance Launched!'' s8;
              s8 = print (replicate 50 CHR ''='') s8;
              s8 = print (''Instance ID: '' @ instance_id) s8;
              s8 = print (''Instance Type: '' @ instance_type) s8;
              s8 = print (''Key Pair: '' @ key_name) s8;
              s8 = print (''Security Group: '' @ sg_id) s8;
              s8 = print ''\<newline>Waiting for instance to initialize...'' s8
          in case wait_until_running p instance_id s8 of
            (Inl msg, s9) \<Rightarrow> (Raised (WaiterError msg), s9)
          | (Inr _, s9) \<Rightarrow>
         (case load p instance_id s9 of
            (Inl e, s10) \<Rightarrow> (Returned, print (''Failed to launch instance: '' @ str e) s10)
          | (Inr instance, s10) \<Rightarrow>
         (let s11 = print (''Instance State: '' @ state_Name instance) s10;
              s12 =
                (if truthy (public_ip_address instance)
                 then
                   (let ip = the (public_ip_address instance);
                        t = print (''Public IP: '' @ ip) s11;
                        t = print_windows_connection_instructions key_name
                              (public_ip_address instance) t;
                        t = open_w ''instance_connection.txt'' t;
                        t = f_write ''instance_connection.txt''
                              (''Instance ID: '' @ instance_id @ ''\<newline>'') t;
                        t = f_write ''instance_connection.txt''
                              (''Public IP: '' @ ip @ ''\<newline>'') t;
                        t = f_write ''instance_connection.txt''
                              (''Key Pair: '' @ key_name @ ''.pem\<newline>'') t;
                        t = f_write ''instance_connection.txt''
                              (''Connect: ec2-user@'' @ ip @ ''\<newline>'') t
                    in print (''\<newline>Connection info saved to 'instance_connection.txt''
                              @ apostrophe) t)
                 else s11);
              s13 = print ''\<newline>Use this command to check status:'' s12;
              s14 = print (''aws ec2 describe-instances --instance-ids '' @ instance_id) s13
          in (Returned, s14))))))))))"

section \<open>list\_ec2.py\<close>

text \<open>The inner loop, over the instances of one reservation.\<close>

fun print_instances :: "instance_description list \<Rightarrow> 'w state \<Rightarrow> 'w state" where
  "print_instances [] s = s"
| "print_instances (instance # rest) s =
     (let instance_id = InstanceId instance;
          state = State_Name (State instance);
          instance_type = InstanceType_desc instance
      in print_instances rest
           (print (instance_id @ [CHR 0x09] @ state @ [CHR 0x09, CHR 0x09] @ instance_type) s))"

text \<open>The outer loop, over the reservations of the response.\<close>

fun print_reservations :: "reservation list \<Rightarrow> 'w state \<Rightarrow> 'w state" where
  "print_reservations [] s = s"
| "print_reservations (reservation # rest) s =
     print_reservations rest (print_instances (Instances reservation) s)"

text \<open>
  The module body. \<^verbatim>\<open>describe_instances\<close> is called outside any \<^verbatim>\<open>try\<close>: a
  \<^verbatim>\<open>ClientError\<close> ends the script before anything is printed.
\<close>

definition list_ec2 :: "'w ec2 \<Rightarrow> 'w state \<Rightarrow> outcome \<times> 'w state" where
  "list_ec2 p s =
     (case describe_instances p s of
        (Inl e, s1) \<Rightarrow> (Raised (Uncaught e), s1)
      | (Inr response, s1) \<Rightarrow>
          (let s2 = print (''Instance ID'' @ [CHR 0x09, CHR 0x09] @ ''State''
                           @ [CHR 0x09, CHR 0x09] @ ''Type'') s1;
               s3 = print ''----------------------------------------------'' s2
           in (Returned, print_reservations (Reservations response) s3)))"

text \<open>
  The line of the listing for one instance: the f-string of the loop body of
  \<^verbatim>\<open>list_ec2.py\<close>, identifier, tab, state name, two tabs, type.
\<close>

definition instance_line :: "instance_description \<Rightarrow> string" where
  "instance_line i =
     InstanceId i @ [CHR 0x09] @ State_Name (State i) @ [CHR 0x09, CHR 0x09]
     @ InstanceType_desc i"

section \<open>A provider to run the scripts against\<close>

text \<open>
  A small provider, used to evaluate the scripts at concrete inputs. Its account state
  holds the names of the key pairs, the security groups (name and identifier), the
  free-tier eligible instance types in the order they are reported, the address a
  launched instance gets, and the reservations. The operations named in \<open>refused\<close>
  fail with an authorisation error.
\<close>

record stub_world =
  sw_key_pairs :: "string list"
  sw_groups :: "(string \<times> string) list"
  sw_types :: "string list"
  sw_public_ip :: "string option"
  sw_reservations :: "reservation list"

definition denied :: "string \<Rightarrow> client_error" where
  "denied operation =
     ClientError (''An error occurred (UnauthorizedOperation) when calling the '' @ operation
                  @ '' operation: You are not authorized to perform this operation.'')"

definition key_pair_not_found :: client_error where
  "key_pair_not_found =
     ClientError (''An error occurred (InvalidKeyPair.NotFound) when calling the ''
                  @ ''DescribeKeyPairs operation: The key pair does not exist'')"

definition group_not_found :: client_error where
  "group_not_found =
     ClientError (''An error occurred (InvalidGroup.NotFound) when calling the ''
                  @ ''DescribeSecurityGroups operation: The security group does not exist'')"

definition group_duplicate :: client_error where
  "group_duplicate =
     ClientError (''An error occurred (InvalidGroup.Duplicate) when calling the ''
                  @ ''CreateSecurityGroup operation: The security group already exists'')"

definition stub_ec2 :: "string list \<Rightarrow> stub_world ec2" where
  "stub_ec2 refused =
     \<lparr>api_describe_instance_types = (\<lambda>w Filters MaxResults.
        if ''DescribeInstanceTypes'' \<in> set refused
        then (Inl (denied ''DescribeInstanceTypes''), w)
        else (Inr \<lparr>InstanceTypes =
                     map (\<lambda>t. \<lparr>InstanceType = t\<rparr>) (take (nat MaxResults) (sw_types w))\<rparr>, w)),
      api_describe_key_pairs = (\<lambda>w KeyNames.
        if set KeyNames \<subseteq> set (sw_key_pairs w) then (Inr (), w)
        else (Inl key_pair_not_found, w)),
      api_describe_security_groups = (\<lambda>w GroupNames.
        if ''DescribeSecurityGroups'' \<in> set refused
        then (Inl (denied ''DescribeSecurityGroups''), w)
        else case filter (\<lambda>g. fst g \<in> set GroupNames) (sw_groups w) of
               [] \<Rightarrow> (Inl group_not_found, w)
             | g # gs \<Rightarrow> (Inr \<lparr>SecurityGroups = map (\<lambda>g. \<lparr>GroupId = snd g\<rparr>) (g # gs)\<rparr>, w)),
      api_create_security_group = (\<lambda>w GroupName Description.
        if ''CreateSecurityGroup'' \<in> set refused
        then (Inl (denied ''CreateSecurityGroup''), w)
        else if GroupName \<in> set (map fst (sw_groups w)) then (Inl group_duplicate, w)
        else (let gid = ''sg-0'' @ replicate (length (sw_groups w)) CHR ''0''
              in (Inr \<lparr>GroupId = gid\<rparr>, w\<lparr>sw_groups := sw_groups w @ [(GroupName, gid)]\<rparr>))),
      api_authorize_security_group_ingress = (\<lambda>w gid IpPermissions.
        if ''AuthorizeSecurityGroupIngress'' \<in> set refused
        then (Inl (denied ''AuthorizeSecurityGroupIngress''), w)
        else (Inr (), w)),
      api_create_instances = (\<lambda>w args. (Inr [''i-0123456789abcdef0''], w)),
      api_wait_until_running = (\<lambda>w iid. (Inr (), w)),
      api_load = (\<lambda>w iid.
        (Inr \<lparr>state_Name = ''running'', public_ip_address = sw_public_ip w\<rparr>, w)),
      api_describe_instances = (\<lambda>w. (Inr \<lparr>Reservations = sw_reservations w\<rparr>, w))\<rparr>"

text \<open>
  An account with the key pair of \<^verbatim>\<open>main\<close>, no security group, two eligible instance
  types and two reservations.
\<close>

definition account :: stub_world where
  "account =
     \<lparr>sw_key_pairs = [''my-python-key''],
      sw_groups = [],
      sw_types = [''t2.micro'', ''t3.micro''],
      sw_public_ip = Some ''203.0.113.5'',
      sw_reservations =
        [\<lparr>Instances =
            [\<lparr>InstanceId = ''i-0b'', State = \<lparr>State_Name = ''running''\<rparr>,
              InstanceType_desc = ''t3.micro''\<rparr>,
             \<lparr>InstanceId = ''i-0a'', State = \<lparr>State_Name = ''stopped''\<rparr>,
              InstanceType_desc = ''t2.micro''\<rparr>]\<rparr>,
         \<lparr>Instances =
            [\<lparr>InstanceId = ''i-0c'', State = \<lparr>State_Name = ''pending''\<rparr>,
              InstanceType_desc = ''t2.micro''\<rparr>]\<rparr>]\<rparr>"

text \<open>A run that starts with nothing printed, no file and no call issued.\<close>

definition start :: "'w \<Rightarrow> 'w state" where
  "start w = \<lparr>world = w, stdout = [], files = Map.empty, calls = []\<rparr>"

text \<open>
  What idempotent provisioning needs from the provider: a lookup that succeeded gives
  the same response when it is repeated in the account state it left, and a group that
  was created and given its rule is then the first one found under its name.
\<close>

definition keeps_groups :: "'w ec2 \<Rightarrow> bool" where
  "keeps_groups p \<longleftrightarrow>
     (\<forall>w names response w'.
        api_describe_security_groups p w names = (Inr response, w')
        \<longrightarrow> fst (api_describe_security_groups p w' names) = Inr response) \<and>
     (\<forall>w name description created w1 perms w2.
        api_create_security_group p w name description = (Inr created, w1) \<and>
        api_authorize_security_group_ingress p w1 (GroupId created) perms = (Inr (), w2)
        \<longrightarrow> (\<exists>response g gs.
               fst (api_describe_security_groups p w2 [name]) = Inr response \<and>
               SecurityGroups response = g # gs \<and> GroupId g = GroupId created))"

section \<open>Auxiliary facts\<close>

lemma str_in_sublist: "str_in sub s = sublist sub s"
  by (induction s) (auto simp: sublist_Cons_right)

lemma world_print [simp]: "world (print l s) = world s"
  and files_print [simp]: "files (print l s) = files s"
  and calls_print [simp]: "calls (print l s) = calls s"
  and stdout_print [simp]: "stdout (print l s) = stdout s @ [l]"
  by (simp_all add: print_def)


lemmas api_defs =
  describe_instance_types_def describe_key_pairs_def describe_security_groups_def
  create_security_group_call_def authorize_security_group_ingress_def create_instances_def
  wait_until_running_def load_def describe_instances_def invoke_def

lemma get_free_tier_instance_type_frame:
  "calls (snd (get_free_tier_instance_type p s)) =
     calls s @ [DescribeInstanceTypes [\<lparr>Name = ''free-tier-eligible'', Values = [''true'']\<rparr>] 5]"
  "files (snd (get_free_tier_instance_type p s)) = files s"
  by (simp_all add: get_free_tier_instance_type_def api_defs Let_def
           split: prod.splits sum.splits list.splits)

lemma check_key_pair_frame:
  "calls (snd (check_key_pair p key_name s)) = calls s @ [DescribeKeyPairs [key_name]]"
  "files (snd (check_key_pair p key_name s)) = files s"
  by (simp_all add: check_key_pair_def api_defs Let_def path_exists_def
           split: prod.splits sum.splits)

lemma check_key_pair_found:
  "api_describe_key_pairs p (world s) [key_name] = (Inr u, w') \<Longrightarrow>
   fst (check_key_pair p key_name s) = True"
  by (simp add: check_key_pair_def api_defs Let_def)

lemma check_key_pair_error:
  "api_describe_key_pairs p (world s) [key_name] = (Inl e, w') \<Longrightarrow>
   fst (check_key_pair p key_name s) = False \<and> world (snd (check_key_pair p key_name s)) = w'"
  by (simp add: check_key_pair_def api_defs Let_def)

lemma create_security_group_existing:
  "api_describe_security_groups p (world s) [''python-sg-for-ssh''] = (Inr response, w') \<Longrightarrow>
   SecurityGroups response = g # gs \<Longrightarrow>
   create_security_group p s =
     (Inr (Some (GroupId g)),
      s\<lparr>world := w',
        stdout := stdout s @ [''Security group 'python-sg-for-ssh' already exists. Using it.''],
        calls := calls s @ [DescribeSecurityGroups [''python-sg-for-ssh'']]\<rparr>)"
  by (simp add: create_security_group_def api_defs Let_def print_def)

lemma create_security_group_files:
  "files (snd (create_security_group p s)) = files s"
  by (simp add: create_security_group_def api_defs Let_def
           split: prod.splits sum.splits list.splits)

lemma create_security_group_calls:
  "\<exists>new. calls (snd (create_security_group p s)) = calls s @ new \<and>
         (\<forall>args. CreateInstances args \<notin> set new)"
  by (simp add: create_security_group_def api_defs Let_def
           split: prod.splits sum.splits list.splits)

lemma create_security_group_Some_cases:
  assumes "create_security_group p s = (Inr (Some i), s1)"
  shows "(\<exists>response g gs.
            api_describe_security_groups p (world s) [''python-sg-for-ssh'']
              = (Inr response, world s1) \<and>
            SecurityGroups response = g # gs \<and> i = GroupId g) \<or>
         (\<exists>e w1 created w2.
            api_describe_security_groups p (world s) [''python-sg-for-ssh''] = (Inl e, w1) \<and>
            api_create_security_group p w1 ''python-sg-for-ssh''
              ''Security group for EC2 instance created via Python'' = (Inr created, w2) \<and>
            api_authorize_security_group_ingress p w2 (GroupId created)
              [\<lparr>IpProtocol = ''tcp'', FromPort = 22, ToPort = 22,
                IpRanges = [\<lparr>CidrIp = ''0.0.0.0/0''\<rparr>]\<rparr>] = (Inr (), world s1) \<and>
            i = GroupId created)"
  using assms
  by (auto simp add: create_security_group_def api_defs Let_def
           split: prod.splits sum.splits list.splits if_splits)

lemma filter_absent: "name \<notin> fst ` set gs \<Longrightarrow> filter (\<lambda>g. fst g = name) gs = []"
  by (induction gs) auto

lemma keeps_groups_stub: "keeps_groups (stub_ec2 [])"
  unfolding keeps_groups_def
  by (auto simp add: stub_ec2_def Let_def filter_absent split: list.splits if_splits)

lemma create_security_group_created:
  assumes "api_describe_security_groups p (world s) [''python-sg-for-ssh''] = (Inl e, w1)"
    and "str_in ''InvalidGroup.NotFound'' (str e)"
    and "api_create_security_group p w1 ''python-sg-for-ssh''
           ''Security group for EC2 instance created via Python'' = (Inr created, w2)"
    and "api_authorize_security_group_ingress p w2 (GroupId created)
           [\<lparr>IpProtocol = ''tcp'', FromPort = 22, ToPort = 22,
             IpRanges = [\<lparr>CidrIp = ''0.0.0.0/0''\<rparr>]\<rparr>] = (Inr (), w3)"
  shows "create_security_group p s =
     (Inr (Some (GroupId created)),
      s\<lparr>world := w3,
        stdout := stdout s
          @ [''Creating new security group: 'python-sg-for-ssh'' @ apostrophe,
             ''Security Group Created: '' @ GroupId created,
             ''SSH rule added (Port 22 open to world).''],
        calls := calls s
          @ [DescribeSecurityGroups [''python-sg-for-ssh''],
             CreateSecurityGroup ''python-sg-for-ssh''
               ''Security group for EC2 instance created via Python'',
             AuthorizeSecurityGroupIngress (GroupId created)
               [\<lparr>IpProtocol = ''tcp'', FromPort = 22, ToPort = 22,
                 IpRanges = [\<lparr>CidrIp = ''0.0.0.0/0''\<rparr>]\<rparr>]]\<rparr>)"
  using assms by (simp add: create_security_group_def api_defs Let_def print_def)

lemma create_security_group_None:
  "api_describe_security_groups p (world s) [''python-sg-for-ssh''] = (Inl e, w1) \<Longrightarrow>
   \<not> str_in ''InvalidGroup.NotFound'' (str e) \<Longrightarrow>
   fst (create_security_group p s) = Inr None"
  "api_describe_security_groups p (world s) [''python-sg-for-ssh''] = (Inl e, w1) \<Longrightarrow>
   str_in ''InvalidGroup.NotFound'' (str e) \<Longrightarrow>
   api_create_security_group p w1 ''python-sg-for-ssh''
     ''Security group for EC2 instance created via Python'' = (Inl sg_error, w2) \<Longrightarrow>
   fst (create_security_group p s) = Inr None"
  "api_describe_security_groups p (world s) [''python-sg-for-ssh''] = (Inl e, w1) \<Longrightarrow>
   str_in ''InvalidGroup.NotFound'' (str e) \<Longrightarrow>
   api_create_security_group p w1 ''python-sg-for-ssh''
     ''Security group for EC2 instance created via Python'' = (Inr created, w2) \<Longrightarrow>
   api_authorize_security_group_ingress p w2 (GroupId created)
     [\<lparr>IpProtocol = ''tcp'', FromPort = 22, ToPort = 22,
       IpRanges = [\<lparr>CidrIp = ''0.0.0.0/0''\<rparr>]\<rparr>] = (Inl sg_error, w3) \<Longrightarrow>
   fst (create_security_group p s) = Inr None"
  by (simp_all add: create_security_group_def api_defs Let_def)

lemma main_key_missing:
  "check_key_pair p ''my-python-key''
     (print (replicate 60 CHR ''='')
        (print ''EC2 Instance Creator with Free-Tier Detection''
           (print (replicate 60 CHR ''='') s))) = (False, s4) \<Longrightarrow>
   main p s = (Returned, print ''Failed due to missing key pair. Exiting.'' s4)"
  by (simp add: main_def Let_def)

lemma main_no_group:
  "check_key_pair p ''my-python-key''
     (print (replicate 60 CHR ''='')
        (print ''EC2 Instance Creator with Free-Tier Detection''
           (print (replicate 60 CHR ''='') s))) = (True, s4) \<Longrightarrow>
   get_free_tier_instance_type p s4 = (instance_type, s5) \<Longrightarrow>
   create_security_group p s5 = (Inr sg, s6) \<Longrightarrow> \<not> truthy sg \<Longrightarrow>
   main p s = (Returned, print ''Failed to get a security group. Exiting.'' s6)"
  by (simp add: main_def Let_def)

lemma main_calls_extend:
  "check_key_pair p ''my-python-key''
     (print (replicate 60 CHR ''='')
        (print ''EC2 Instance Creator with Free-Tier Detection''
           (print (replicate 60 CHR ''='') s))) = (True, s4) \<Longrightarrow>
   get_free_tier_instance_type p s4 = (instance_type, s5) \<Longrightarrow>
   create_security_group p s5 = (r, s6) \<Longrightarrow>
   \<exists>rest. calls (snd (main p s)) = calls s6 @ rest"
  by (simp add: main_def Let_def api_defs print_windows_connection_instructions_def
        open_w_def f_write_def
        split: prod.splits sum.splits list.splits option.splits)

lemma create_security_group_calls_head:
  "\<exists>rest. calls (snd (create_security_group p s))
           = calls s @ DescribeSecurityGroups [''python-sg-for-ssh''] # rest"
  by (simp add: create_security_group_def api_defs Let_def
           split: prod.splits sum.splits list.splits)

lemma main_running_no_address:
  assumes "check_key_pair p ''my-python-key''
             (print (replicate 60 CHR ''='')
                (print ''EC2 Instance Creator with Free-Tier Detection''
                   (print (replicate 60 CHR ''='') s))) = (True, s4)"
    and "get_free_tier_instance_type p s4 = (instance_type, s5)"
    and "create_security_group p s5 = (Inr (Some sg_id), s6)" and "sg_id \<noteq> []"
    and "api_create_instances p (world s6)
           \<lparr>ImageId = ''ami-0c02fb55956c7d316'', MinCount = 1, MaxCount = 1,
             InstanceType_arg = instance_type, KeyName = ''my-python-key'',
             SecurityGroupIds = [sg_id],
             TagSpecifications =
               [\<lparr>ResourceType = ''instance'',
                 Tags = [\<lparr>Key = ''Name'', Value = ''MyPythonInstance''\<rparr>]\<rparr>]\<rparr>
           = (Inr (instance_id # others), w7)"
    and "api_wait_until_running p w7 instance_id = (Inr (), w8)"
    and "api_load p w8 instance_id = (Inr instance, w9)"
    and "\<not> truthy (public_ip_address instance)"
  shows "main p s =
     (Returned,
      s6\<lparr>world := w9,
         stdout := stdout s6
           @ [''\<newline>'' @ replicate 50 CHR ''='',
              ''SUCCESS: EC2 Instance Launched!'',
              replicate 50 CHR ''='',
              ''Instance ID: '' @ instance_id,
              ''Instance Type: '' @ instance_type,
              ''Key Pair: my-python-key'',
              ''Security Group: '' @ sg_id,
              ''\<newline>Waiting for instance to initialize...'',
              ''Instance State: '' @ state_Name instance,
              ''\<newline>Use this command to check status:'',
              ''aws ec2 describe-instances --instance-ids '' @ instance_id],
         calls := calls s6
           @ [CreateInstances
                \<lparr>ImageId = ''ami-0c02fb55956c7d316'', MinCount = 1, MaxCount = 1,
                  InstanceType_arg = instance_type, KeyName = ''my-python-key'',
                  SecurityGroupIds = [sg_id],
                  TagSpecifications =
                    [\<lparr>ResourceType = ''instance'',
                      Tags = [\<lparr>Key = ''Name'', Value = ''MyPythonInstance''\<rparr>]\<rparr>]\<rparr>,
              WaitUntilRunning instance_id, Load instance_id]\<rparr>)"
  using assms by (simp add: main_def Let_def api_defs print_def)

lemma main_running_address:
  assumes "check_key_pair p ''my-python-key''
             (print (replicate 60 CHR ''='')
                (print ''EC2 Instance Creator with Free-Tier Detection''
                   (print (replicate 60 CHR ''='') s))) = (True, s4)"
    and "get_free_tier_instance_type p s4 = (instance_type, s5)"
    and "create_security_group p s5 = (Inr (Some sg_id), s6)" and "sg_id \<noteq> []"
    and "api_create_instances p (world s6)
           \<lparr>ImageId = ''ami-0c02fb55956c7d316'', MinCount = 1, MaxCount = 1,
             InstanceType_arg = instance_type, KeyName = ''my-python-key'',
             SecurityGroupIds = [sg_id],
             TagSpecifications =
               [\<lparr>ResourceType = ''instance'',
                 Tags = [\<lparr>Key = ''Name'', Value = ''MyPythonInstance''\<rparr>]\<rparr>]\<rparr>
           = (Inr (instance_id # others), w7)"
    and "api_wait_until_running p w7 instance_id = (Inr (), w8)"
    and "api_load p w8 instance_id = (Inr instance, w9)"
    and "public_ip_address instance = Some ip" and "ip \<noteq> []"
  shows "fst (main p s) = Returned"
    and "files (snd (main p s)) =
       (files s6)(''instance_connection.txt'' \<mapsto>
          ''Instance ID: '' @ instance_id @ ''\<newline>''
          @ ''Public IP: '' @ ip @ ''\<newline>''
          @ ''Key Pair: my-python-key.pem\<newline>''
          @ ''Connect: ec2-user@'' @ ip @ ''\<newline>'')"
  using assms
  by (simp_all add: main_def Let_def api_defs print_def
        print_windows_connection_instructions_def open_w_def f_write_def)

lemma check_key_pair_files_independent:
  assumes "world s = world t" and "calls s = calls t"
  shows "fst (check_key_pair p key_name s) = fst (check_key_pair p key_name t) \<and>
         world (snd (check_key_pair p key_name s)) = world (snd (check_key_pair p key_name t)) \<and>
         calls (snd (check_key_pair p key_name s)) = calls (snd (check_key_pair p key_name t))"
  using assms
  by (simp add: check_key_pair_def api_defs Let_def split: prod.splits sum.splits)

lemma get_free_tier_instance_type_files_independent:
  assumes "world s = world t" and "calls s = calls t"
  shows "fst (get_free_tier_instance_type p s) = fst (get_free_tier_instance_type p t) \<and>
         world (snd (get_free_tier_instance_type p s))
           = world (snd (get_free_tier_instance_type p t)) \<and>
         calls (snd (get_free_tier_instance_type p s))
           = calls (snd (get_free_tier_instance_type p t))"
  using assms
  by (simp add: get_free_tier_instance_type_def api_defs Let_def
           split: prod.splits sum.splits list.splits)

lemma create_security_group_files_independent:
  assumes "world s = world t" and "calls s = calls t"
  shows "fst (create_security_group p s) = fst (create_security_group p t) \<and>
         world (snd (create_security_group p s)) = world (snd (create_security_group p t)) \<and>
         calls (snd (create_security_group p s)) = calls (snd (create_security_group p t))"
  using assms
  by (simp add: create_security_group_def api_defs Let_def
           split: prod.splits sum.splits list.splits)

lemma main_group_raised:
  "check_key_pair p ''my-python-key''
     (print (replicate 60 CHR ''='')
        (print ''EC2 Instance Creator with Free-Tier Detection''
           (print (replicate 60 CHR ''='') s))) = (True, s4) \<Longrightarrow>
   get_free_tier_instance_type p s4 = (instance_type, s5) \<Longrightarrow>
   create_security_group p s5 = (Inl x, s6) \<Longrightarrow>
   main p s = (Raised x, s6)"
  by (simp add: main_def Let_def)

lemma main_launch_files_independent:
  assumes "check_key_pair p ''my-python-key''
             (print (replicate 60 CHR ''='')
                (print ''EC2 Instance Creator with Free-Tier Detection''
                   (print (replicate 60 CHR ''='') s))) = (True, s4)"
    and "get_free_tier_instance_type p s4 = (instance_type, s5)"
    and "create_security_group p s5 = (Inr (Some sg_id), s6)"
    and "check_key_pair p ''my-python-key''
             (print (replicate 60 CHR ''='')
                (print ''EC2 Instance Creator with Free-Tier Detection''
                   (print (replicate 60 CHR ''='') t))) = (True, t4)"
    and "get_free_tier_instance_type p t4 = (instance_type, t5)"
    and "create_security_group p t5 = (Inr (Some sg_id), t6)"
    and "sg_id \<noteq> []" and "world s6 = world t6" and "calls s6 = calls t6"
  shows "fst (main p s) = fst (main p t) \<and>
         world (snd (main p s)) = world (snd (main p t)) \<and>
         calls (snd (main p s)) = calls (snd (main p t))"
  using assms
  by (simp add: main_def Let_def api_defs print_windows_connection_instructions_def
        open_w_def f_write_def
        split: prod.splits sum.splits list.splits)

lemma main_launch_issued:
  assumes "check_key_pair p ''my-python-key''
             (print (replicate 60 CHR ''='')
                (print ''EC2 Instance Creator with Free-Tier Detection''
                   (print (replicate 60 CHR ''='') s))) = (True, s4)"
    and "get_free_tier_instance_type p s4 = (instance_type, s5)"
    and "create_security_group p s5 = (Inr (Some sg_id), s6)" and "sg_id \<noteq> []"
  shows "\<exists>rest. calls (snd (main p s)) =
           calls s6
           @ CreateInstances
               \<lparr>ImageId = ''ami-0c02fb55956c7d316'', MinCount = 1, MaxCount = 1,
                 InstanceType_arg = instance_type, KeyName = ''my-python-key'',
                 SecurityGroupIds = [sg_id],
                 TagSpecifications =
                   [\<lparr>ResourceType = ''instance'',
                     Tags = [\<lparr>Key = ''Name'', Value = ''MyPythonInstance''\<rparr>]\<rparr>]\<rparr>
             # rest"
  using assms
  by (simp add: main_def Let_def api_defs print_windows_connection_instructions_def
        open_w_def f_write_def
        split: prod.splits sum.splits list.splits)

lemma main_files_independent:
  assumes w: "world s = world t" and c: "calls s = calls t"
  shows "fst (main p s) = fst (main p t) \<and>
         world (snd (main p s)) = world (snd (main p t)) \<and>
         calls (snd (main p s)) = calls (snd (main p t))"
proof -
  let ?bs = "print (replicate 60 CHR ''='')
        (print ''EC2 Instance Creator with Free-Tier Detection''
           (print (replicate 60 CHR ''='') s))"
  let ?bt = "print (replicate 60 CHR ''='')
        (print ''EC2 Instance Creator with Free-Tier Detection''
           (print (replicate 60 CHR ''='') t))"
  let ?s4 = "snd (check_key_pair p ''my-python-key'' ?bs)"
  let ?t4 = "snd (check_key_pair p ''my-python-key'' ?bt)"
  let ?s5 = "snd (get_free_tier_instance_type p ?s4)"
  let ?t5 = "snd (get_free_tier_instance_type p ?t4)"
  let ?s6 = "snd (create_security_group p ?s5)"
  let ?t6 = "snd (create_security_group p ?t5)"
  have b: "world ?bs = world ?bt" "calls ?bs = calls ?bt"
    using w c by simp_all
  note k = check_key_pair_files_independent [OF b, of p "''my-python-key''"]
  from k have k4: "world ?s4 = world ?t4" "calls ?s4 = calls ?t4"
    by simp_all
  note g = get_free_tier_instance_type_files_independent [OF k4, of p]
  from g have g5: "world ?s5 = world ?t5" "calls ?s5 = calls ?t5"
    by simp_all
  note r = create_security_group_files_independent [OF g5, of p]
  from r have r6: "world ?s6 = world ?t6" "calls ?s6 = calls ?t6"
    by simp_all
  show ?thesis
  proof (cases "fst (check_key_pair p ''my-python-key'' ?bs)")
    case False
    then have "check_key_pair p ''my-python-key'' ?bs = (False, ?s4)"
      and "check_key_pair p ''my-python-key'' ?bt = (False, ?t4)"
      using k by (simp_all add: prod_eq_iff)
    then show ?thesis
      using k4 by (simp add: main_key_missing)
  next
    case True
    then have ks: "check_key_pair p ''my-python-key'' ?bs = (True, ?s4)"
      and kt: "check_key_pair p ''my-python-key'' ?bt = (True, ?t4)"
      using k by (simp_all add: prod_eq_iff)
    let ?ty = "fst (get_free_tier_instance_type p ?s4)"
    have gs: "get_free_tier_instance_type p ?s4 = (?ty, ?s5)"
      and gt: "get_free_tier_instance_type p ?t4 = (?ty, ?t5)"
      using g by (simp_all add: prod_eq_iff)
    show ?thesis
    proof (cases "fst (create_security_group p ?s5)")
      case (Inl x)
      then have "create_security_group p ?s5 = (Inl x, ?s6)"
        and "create_security_group p ?t5 = (Inl x, ?t6)"
        using r by (simp_all add: prod_eq_iff)
      then show ?thesis
        using r6 main_group_raised [OF ks gs] main_group_raised [OF kt gt] by simp
    next
      case (Inr sg)
      then have rs: "create_security_group p ?s5 = (Inr sg, ?s6)"
        and rt: "create_security_group p ?t5 = (Inr sg, ?t6)"
        using r by (simp_all add: prod_eq_iff)
      show ?thesis
      proof (cases "truthy sg")
        case False
        then show ?thesis
          using r6 main_no_group [OF ks gs rs] main_no_group [OF kt gt rt] by simp
      next
        case True
        then obtain sg_id where sg: "sg = Some sg_id" and named: "sg_id \<noteq> []"
          by (cases sg) auto
        show ?thesis
          using main_launch_files_independent
                  [OF ks gs rs [unfolded sg] kt gt rt [unfolded sg] named r6] .
      qed
    qed
  qed
qed

lemma print_instances_eq:
  "print_instances is s = s\<lparr>stdout := stdout s @ map instance_line is\<rparr>"
  by (induction "is" arbitrary: s) (simp_all add: print_def Let_def instance_line_def)

lemma print_reservations_eq:
  "print_reservations rs s =
     s\<lparr>stdout := stdout s @ map instance_line (concat (map Instances rs))\<rparr>"
  by (induction rs arbitrary: s) (simp_all add: print_instances_eq)

lemma str_in_middle: "str_in sub (a @ sub @ b)"
  by (simp add: str_in_sublist)

section \<open>Idempotent group provisioning\<close>

text \<open>
  Claim C1. In every state in which the lookup of the group named
  \<^verbatim>\<open>python-sg-for-ssh\<close> reports a group, \<^verbatim>\<open>create_security_group\<close> returns the identifier
  of the first group reported, and the lookup is the only call it issues: no group is
  created and no ingress rule is added. Against a provider that keeps its groups, a
  second call after a first call that returned an identifier returns the same identifier,
  again with the lookup as its only call.
\<close>

theorem create_security_group_idempotent:
  "(\<forall>response g gs w'.
      api_describe_security_groups p (world s) [''python-sg-for-ssh''] = (Inr response, w') \<and>
      SecurityGroups response = g # gs
      \<longrightarrow> create_security_group p s =
            (Inr (Some (GroupId g)),
             s\<lparr>world := w',
               stdout := stdout s
                 @ [''Security group 'python-sg-for-ssh' already exists. Using it.''],
               calls := calls s @ [DescribeSecurityGroups [''python-sg-for-ssh'']]\<rparr>)) \<and>
   (keeps_groups p \<longrightarrow>
      (\<forall>i s1. create_security_group p s = (Inr (Some i), s1)
         \<longrightarrow> fst (create_security_group p s1) = Inr (Some i) \<and>
             calls (snd (create_security_group p s1))
               = calls s1 @ [DescribeSecurityGroups [''python-sg-for-ssh'']]))"
proof (intro conjI allI impI)
  fix response g gs w'
  assume "api_describe_security_groups p (world s) [''python-sg-for-ssh''] = (Inr response, w') \<and>
      SecurityGroups response = g # gs"
  then show "create_security_group p s =
            (Inr (Some (GroupId g)),
             s\<lparr>world := w',
               stdout := stdout s
                 @ [''Security group 'python-sg-for-ssh' already exists. Using it.''],
               calls := calls s @ [DescribeSecurityGroups [''python-sg-for-ssh'']]\<rparr>)"
    by (simp add: create_security_group_existing)
next
  fix i s1
  assume k: "keeps_groups p" and first: "create_security_group p s = (Inr (Some i), s1)"
  have "\<exists>response g gs.
          fst (api_describe_security_groups p (world s1) [''python-sg-for-ssh'']) = Inr response \<and>
          SecurityGroups response = g # gs \<and> GroupId g = i"
    using create_security_group_Some_cases [OF first]
  proof (elim disjE exE conjE)
    fix response g gs
    assume "api_describe_security_groups p (world s) [''python-sg-for-ssh'']
              = (Inr response, world s1)"
      and "SecurityGroups response = g # gs" and "i = GroupId g"
    with k show ?thesis unfolding keeps_groups_def by blast
  next
    fix e w1 created w2
    assume "api_create_security_group p w1 ''python-sg-for-ssh''
              ''Security group for EC2 instance created via Python'' = (Inr created, w2)"
      and "api_authorize_security_group_ingress p w2 (GroupId created)
              [\<lparr>IpProtocol = ''tcp'', FromPort = 22, ToPort = 22,
                IpRanges = [\<lparr>CidrIp = ''0.0.0.0/0''\<rparr>]\<rparr>] = (Inr (), world s1)"
      and "i = GroupId created"
    with k show ?thesis unfolding keeps_groups_def by blast
  qed
  then obtain response g gs w' where
    "api_describe_security_groups p (world s1) [''python-sg-for-ssh''] = (Inr response, w')"
    "SecurityGroups response = g # gs" "GroupId g = i"
    by (metis prod.collapse)
  then have "create_security_group p s1 =
     (Inr (Some i),
      s1\<lparr>world := w',
        stdout := stdout s1 @ [''Security group 'python-sg-for-ssh' already exists. Using it.''],
        calls := calls s1 @ [DescribeSecurityGroups [''python-sg-for-ssh'']]\<rparr>)"
    using create_security_group_existing by metis
  then show "fst (create_security_group p s1) = Inr (Some i)"
    and "calls (snd (create_security_group p s1))
               = calls s1 @ [DescribeSecurityGroups [''python-sg-for-ssh'']]"
    by simp_all
qed

text \<open>
  The theorem at work: on an account that holds the group, and twice in a row on an
  account that does not.
\<close>

theorem create_security_group_idempotent_witness:
  "create_security_group (stub_ec2 [])
     (start (account\<lparr>sw_groups := [(''default'', ''sg-0d''), (''python-sg-for-ssh'', ''sg-0a1b'')]\<rparr>))
     = (Inr (Some ''sg-0a1b''),
        \<lparr>world = account\<lparr>sw_groups := [(''default'', ''sg-0d''), (''python-sg-for-ssh'', ''sg-0a1b'')]\<rparr>,
         stdout = [''Security group 'python-sg-for-ssh' already exists. Using it.''],
         files = Map.empty,
         calls = [DescribeSecurityGroups [''python-sg-for-ssh'']]\<rparr>) \<and>
   keeps_groups (stub_ec2 []) \<and>
   fst (create_security_group (stub_ec2 []) (start account)) = Inr (Some ''sg-0'') \<and>
   fst (create_security_group (stub_ec2 [])
          (snd (create_security_group (stub_ec2 []) (start account)))) = Inr (Some ''sg-0'') \<and>
   calls (snd (create_security_group (stub_ec2 [])
                 (snd (create_security_group (stub_ec2 []) (start account)))))
     = [DescribeSecurityGroups [''python-sg-for-ssh''],
        CreateSecurityGroup ''python-sg-for-ssh''
          ''Security group for EC2 instance created via Python'',
        AuthorizeSecurityGroupIngress ''sg-0''
          [\<lparr>IpProtocol = ''tcp'', FromPort = 22, ToPort = 22,
            IpRanges = [\<lparr>CidrIp = ''0.0.0.0/0''\<rparr>]\<rparr>],
        DescribeSecurityGroups [''python-sg-for-ssh'']]"
proof -
  let ?held = "account\<lparr>sw_groups := [(''default'', ''sg-0d''), (''python-sg-for-ssh'', ''sg-0a1b'')]\<rparr>"
  have lookup:
    "api_describe_security_groups (stub_ec2 []) (world (start ?held)) [''python-sg-for-ssh'']
       = (Inr \<lparr>SecurityGroups = [\<lparr>GroupId = ''sg-0a1b''\<rparr>]\<rparr>, ?held) \<and>
     SecurityGroups \<lparr>SecurityGroups = [\<lparr>GroupId = ''sg-0a1b''\<rparr>]\<rparr> = \<lparr>GroupId = ''sg-0a1b''\<rparr> # []"
    by (simp add: stub_ec2_def start_def account_def)
  have reuse:
    "create_security_group (stub_ec2 []) (start ?held)
       = (Inr (Some ''sg-0a1b''),
          (start ?held)\<lparr>world := ?held,
            stdout := stdout (start ?held)
              @ [''Security group 'python-sg-for-ssh' already exists. Using it.''],
            calls := calls (start ?held) @ [DescribeSecurityGroups [''python-sg-for-ssh'']]\<rparr>)"
    using create_security_group_idempotent [of "stub_ec2 []" "start ?held"] lookup
    by (metis security_group.select_convs(1))
  let ?s1 = "snd (create_security_group (stub_ec2 []) (start account))"
  have created: "fst (create_security_group (stub_ec2 []) (start account)) = Inr (Some ''sg-0'')"
    by (simp add: create_security_group_def api_defs stub_ec2_def start_def account_def
          group_not_found_def Let_def)
  then have first:
    "create_security_group (stub_ec2 []) (start account) = (Inr (Some ''sg-0''), ?s1)"
    by (simp add: prod_eq_iff)
  have log: "calls ?s1
     = [DescribeSecurityGroups [''python-sg-for-ssh''],
        CreateSecurityGroup ''python-sg-for-ssh''
          ''Security group for EC2 instance created via Python'',
        AuthorizeSecurityGroupIngress ''sg-0''
          [\<lparr>IpProtocol = ''tcp'', FromPort = 22, ToPort = 22,
            IpRanges = [\<lparr>CidrIp = ''0.0.0.0/0''\<rparr>]\<rparr>]]"
    by (simp add: create_security_group_def api_defs stub_ec2_def start_def account_def
          group_not_found_def Let_def)
  have again:
    "fst (create_security_group (stub_ec2 []) ?s1) = Inr (Some ''sg-0'') \<and>
     calls (snd (create_security_group (stub_ec2 []) ?s1))
       = calls ?s1 @ [DescribeSecurityGroups [''python-sg-for-ssh'']]"
    using create_security_group_idempotent [of "stub_ec2 []" "start account"]
      keeps_groups_stub first by blast
  have held:
    "create_security_group (stub_ec2 []) (start ?held)
       = (Inr (Some ''sg-0a1b''),
          \<lparr>world = ?held,
           stdout = [''Security group 'python-sg-for-ssh' already exists. Using it.''],
           files = Map.empty,
           calls = [DescribeSecurityGroups [''python-sg-for-ssh'']]\<rparr>)"
    unfolding reuse by (simp add: start_def)
  from held created again log keeps_groups_stub show ?thesis
    by simp
qed

section \<open>Choice of the instance type\<close>

text \<open>
  Claim C2. When the capability query answers with a non-empty list of instance types,
  \<^verbatim>\<open>get_free_tier_instance_type\<close> returns the identifier of its first entry unchanged;
  when the list is empty, and when the query fails with a client error, it returns the
  literal \<^verbatim>\<open>'t3.micro'\<close>.
\<close>

theorem get_free_tier_instance_type_result:
  "(\<forall>response t ts w'.
      api_describe_instance_types p (world s)
        [\<lparr>Name = ''free-tier-eligible'', Values = [''true'']\<rparr>] 5 = (Inr response, w') \<and>
      InstanceTypes response = t # ts
      \<longrightarrow> fst (get_free_tier_instance_type p s) = InstanceType t) \<and>
   (\<forall>response w'.
      api_describe_instance_types p (world s)
        [\<lparr>Name = ''free-tier-eligible'', Values = [''true'']\<rparr>] 5 = (Inr response, w') \<and>
      InstanceTypes response = []
      \<longrightarrow> fst (get_free_tier_instance_type p s) = ''t3.micro'') \<and>
   (\<forall>e w'.
      api_describe_instance_types p (world s)
        [\<lparr>Name = ''free-tier-eligible'', Values = [''true'']\<rparr>] 5 = (Inl e, w')
      \<longrightarrow> fst (get_free_tier_instance_type p s) = ''t3.micro'')"
  by (simp add: get_free_tier_instance_type_def describe_instance_types_def invoke_def Let_def)

theorem get_free_tier_instance_type_result_witness:
  "fst (get_free_tier_instance_type (stub_ec2 []) (start account)) = ''t2.micro'' \<and>
   fst (get_free_tier_instance_type (stub_ec2 []) (start (account\<lparr>sw_types := []\<rparr>)))
     = ''t3.micro'' \<and>
   fst (get_free_tier_instance_type (stub_ec2 [''DescribeInstanceTypes'']) (start account))
     = ''t3.micro''"
proof -
  have listed:
    "api_describe_instance_types (stub_ec2 []) (world (start account))
       [\<lparr>Name = ''free-tier-eligible'', Values = [''true'']\<rparr>] 5
       = (Inr \<lparr>InstanceTypes = [\<lparr>InstanceType = ''t2.micro''\<rparr>, \<lparr>InstanceType = ''t3.micro''\<rparr>]\<rparr>,
          account)"
    by (simp add: stub_ec2_def start_def account_def)
  have none:
    "api_describe_instance_types (stub_ec2 []) (world (start (account\<lparr>sw_types := []\<rparr>)))
       [\<lparr>Name = ''free-tier-eligible'', Values = [''true'']\<rparr>] 5
       = (Inr \<lparr>InstanceTypes = []\<rparr>, account\<lparr>sw_types := []\<rparr>)"
    by (simp add: stub_ec2_def start_def account_def)
  have failed:
    "api_describe_instance_types (stub_ec2 [''DescribeInstanceTypes'']) (world (start account))
       [\<lparr>Name = ''free-tier-eligible'', Values = [''true'']\<rparr>] 5
       = (Inl (denied ''DescribeInstanceTypes''), account)"
    by (simp add: stub_ec2_def start_def account_def)
  have "fst (get_free_tier_instance_type (stub_ec2 []) (start account))
          = InstanceType \<lparr>InstanceType = ''t2.micro''\<rparr>"
    using get_free_tier_instance_type_result [of "stub_ec2 []" "start account"] listed
    by (metis describe_instance_types_response.select_convs(1))
  moreover have "fst (get_free_tier_instance_type (stub_ec2 [])
                        (start (account\<lparr>sw_types := []\<rparr>))) = ''t3.micro''"
    using get_free_tier_instance_type_result
            [of "stub_ec2 []" "start (account\<lparr>sw_types := []\<rparr>)"] none
    by (metis describe_instance_types_response.select_convs(1))
  moreover have "fst (get_free_tier_instance_type (stub_ec2 [''DescribeInstanceTypes''])
                        (start account)) = ''t3.micro''"
    using get_free_tier_instance_type_result
            [of "stub_ec2 [''DescribeInstanceTypes'']" "start account"] failed
    by blast
  ultimately show ?thesis by simp
qed

section \<open>The key pair check\<close>

text \<open>
  Claim C3. When the lookup of the key pair fails with an error whose text contains
  \<^verbatim>\<open>InvalidKeyPair.NotFound\<close>, \<^verbatim>\<open>check_key_pair\<close> returns false, for every key name; and
  \<^verbatim>\<open>main\<close>, whose key name is \<^verbatim>\<open>my-python-key\<close>, then returns with that lookup as the only
  call issued (no type query, no group provisioning, no launch), the files untouched, and
  the messages of the failed check as its only output after the banner.
\<close>

theorem key_pair_not_found_stops:
  "(\<forall>key_name e w'.
      api_describe_key_pairs p (world s) [key_name] = (Inl e, w') \<and>
      str_in ''InvalidKeyPair.NotFound'' (str e)
      \<longrightarrow> fst (check_key_pair p key_name s) = False) \<and>
   (\<forall>e w'.
      api_describe_key_pairs p (world s) [''my-python-key''] = (Inl e, w') \<and>
      str_in ''InvalidKeyPair.NotFound'' (str e)
      \<longrightarrow> main p s =
            (Returned,
             s\<lparr>world := w',
               stdout := stdout s
                 @ [replicate 60 CHR ''='',
                    ''EC2 Instance Creator with Free-Tier Detection'',
                    replicate 60 CHR ''='',
                    cross_mark @ '' ERROR: Key pair 'my-python-key' does not exist in AWS!'',
                    ''\<newline>Please create it first with:'',
                    ''aws ec2 create-key-pair --key-name my-python-key --query 'KeyMaterial' ''
                    @ ''--output text > my-python-key.pem'',
                    ''\<newline>This will create my-python-key.pem in your current directory'',
                    ''Failed due to missing key pair. Exiting.''],
               calls := calls s @ [DescribeKeyPairs [''my-python-key'']]\<rparr>))"
proof (intro conjI allI impI)
  fix key_name e w'
  assume "api_describe_key_pairs p (world s) [key_name] = (Inl e, w') \<and>
      str_in ''InvalidKeyPair.NotFound'' (str e)"
  then show "fst (check_key_pair p key_name s) = False"
    using check_key_pair_error [of p s key_name e w'] by simp
next
  fix e w'
  assume h: "api_describe_key_pairs p (world s) [''my-python-key''] = (Inl e, w') \<and>
      str_in ''InvalidKeyPair.NotFound'' (str e)"
  let ?banner = "print (replicate 60 CHR ''='')
        (print ''EC2 Instance Creator with Free-Tier Detection''
           (print (replicate 60 CHR ''='') s))"
  have "check_key_pair p ''my-python-key'' ?banner =
     (False,
      s\<lparr>world := w',
        stdout := stdout s
          @ [replicate 60 CHR ''='',
             ''EC2 Instance Creator with Free-Tier Detection'',
             replicate 60 CHR ''='',
             cross_mark @ '' ERROR: Key pair 'my-python-key' does not exist in AWS!'',
             ''\<newline>Please create it first with:'',
             ''aws ec2 create-key-pair --key-name my-python-key --query 'KeyMaterial' ''
             @ ''--output text > my-python-key.pem'',
             ''\<newline>This will create my-python-key.pem in your current directory''],
        calls := calls s @ [DescribeKeyPairs [''my-python-key'']]\<rparr>)"
    using h by (simp add: check_key_pair_def api_defs Let_def print_def)
  from main_key_missing [OF this]
  show "main p s =
            (Returned,
             s\<lparr>world := w',
               stdout := stdout s
                 @ [replicate 60 CHR ''='',
                    ''EC2 Instance Creator with Free-Tier Detection'',
                    replicate 60 CHR ''='',
                    cross_mark @ '' ERROR: Key pair 'my-python-key' does not exist in AWS!'',
                    ''\<newline>Please create it first with:'',
                    ''aws ec2 create-key-pair --key-name my-python-key --query 'KeyMaterial' ''
                    @ ''--output text > my-python-key.pem'',
                    ''\<newline>This will create my-python-key.pem in your current directory'',
                    ''Failed due to missing key pair. Exiting.''],
               calls := calls s @ [DescribeKeyPairs [''my-python-key'']]\<rparr>)"
    by (simp add: print_def)
qed

theorem key_pair_not_found_stops_witness:
  "api_describe_key_pairs (stub_ec2 []) (account\<lparr>sw_key_pairs := []\<rparr>) [''my-python-key'']
     = (Inl key_pair_not_found, account\<lparr>sw_key_pairs := []\<rparr>) \<and>
   str_in ''InvalidKeyPair.NotFound'' (str key_pair_not_found) \<and>
   fst (check_key_pair (stub_ec2 []) ''my-python-key'' (start (account\<lparr>sw_key_pairs := []\<rparr>)))
     = False \<and>
   fst (main (stub_ec2 []) (start (account\<lparr>sw_key_pairs := []\<rparr>))) = Returned \<and>
   calls (snd (main (stub_ec2 []) (start (account\<lparr>sw_key_pairs := []\<rparr>))))
     = [DescribeKeyPairs [''my-python-key'']] \<and>
   files (snd (main (stub_ec2 []) (start (account\<lparr>sw_key_pairs := []\<rparr>)))) = Map.empty"
proof -
  let ?w = "account\<lparr>sw_key_pairs := []\<rparr>"
  have lookup:
    "api_describe_key_pairs (stub_ec2 []) (world (start ?w)) [''my-python-key'']
       = (Inl key_pair_not_found, ?w)"
    by (simp add: stub_ec2_def start_def account_def)
  have marked: "str_in ''InvalidKeyPair.NotFound'' (str key_pair_not_found)"
    by (simp add: key_pair_not_found_def)
  from key_pair_not_found_stops [of "stub_ec2 []" "start ?w"] lookup marked
  have "fst (check_key_pair (stub_ec2 []) ''my-python-key'' (start ?w)) = False"
    and "main (stub_ec2 []) (start ?w) =
            (Returned,
             (start ?w)\<lparr>world := ?w,
               stdout := stdout (start ?w)
                 @ [replicate 60 CHR ''='',
                    ''EC2 Instance Creator with Free-Tier Detection'',
                    replicate 60 CHR ''='',
                    cross_mark @ '' ERROR: Key pair 'my-python-key' does not exist in AWS!'',
                    ''\<newline>Please create it first with:'',
                    ''aws ec2 create-key-pair --key-name my-python-key --query 'KeyMaterial' ''
                    @ ''--output text > my-python-key.pem'',
                    ''\<newline>This will create my-python-key.pem in your current directory'',
                    ''Failed due to missing key pair. Exiting.''],
               calls := calls (start ?w) @ [DescribeKeyPairs [''my-python-key'']]\<rparr>)"
    by blast+
  with lookup marked show ?thesis
    by (simp add: start_def)
qed

text \<open>
  Claim C8. When the lookup of the key pair succeeds, \<^verbatim>\<open>check_key_pair\<close> returns true
  whether or not the file \<^verbatim>\<open><key_name>.pem\<close> exists; the only difference is the text
  printed (a confirmation, or a warning of two lines). \<^verbatim>\<open>main\<close> then goes on: its next
  calls are the type query and the group lookup. Provisioning does not depend on the
  files at all: whatever the working directory holds, \<^verbatim>\<open>main\<close> ends the same way, issues
  the same calls and leaves the same account state; and once the key pair is found and a
  group identifier is obtained, the call that follows the group step is the launch of the
  instance.
\<close>

theorem check_key_pair_ignores_missing_file:
  "(\<forall>key_name u w'.
      api_describe_key_pairs p (world s) [key_name] = (Inr u, w')
      \<longrightarrow> check_key_pair p key_name s =
            (True,
             s\<lparr>world := w',
               stdout := stdout s
                 @ [''Key pair '' @ apostrophe @ key_name @ apostrophe @ '' found in AWS.'']
                 @ (if files s (key_name @ ''.pem'') \<noteq> None
                    then [''Private key file '' @ apostrophe @ key_name @ ''.pem'' @ apostrophe
                          @ '' found locally.'']
                    else [warning_sign @ '' Warning: Private key file '' @ apostrophe
                          @ key_name @ ''.pem'' @ apostrophe
                          @ '' not found in current directory.'',
                          ''  You will need this file to connect to your instance via SSH.'']),
               calls := calls s @ [DescribeKeyPairs [key_name]]\<rparr>)) \<and>
   (\<forall>u w'.
      api_describe_key_pairs p (world s) [''my-python-key''] = (Inr u, w')
      \<longrightarrow> (\<exists>rest. calls (snd (main p s)) =
              calls s
              @ [DescribeKeyPairs [''my-python-key''],
                 DescribeInstanceTypes
                   [\<lparr>Name = ''free-tier-eligible'', Values = [''true'']\<rparr>] 5,
                 DescribeSecurityGroups [''python-sg-for-ssh'']]
              @ rest)) \<and>
   (\<forall>f. fst (main p (s\<lparr>files := f\<rparr>)) = fst (main p s) \<and>
        world (snd (main p (s\<lparr>files := f\<rparr>))) = world (snd (main p s)) \<and>
        calls (snd (main p (s\<lparr>files := f\<rparr>))) = calls (snd (main p s))) \<and>
   (\<forall>s4 instance_type s5 sg_id s6.
      check_key_pair p ''my-python-key''
        (print (replicate 60 CHR ''='')
           (print ''EC2 Instance Creator with Free-Tier Detection''
              (print (replicate 60 CHR ''='') s))) = (True, s4) \<and>
      get_free_tier_instance_type p s4 = (instance_type, s5) \<and>
      create_security_group p s5 = (Inr (Some sg_id), s6) \<and> sg_id \<noteq> []
      \<longrightarrow> (\<exists>rest. calls (snd (main p s)) =
              calls s6
              @ CreateInstances
                   \<lparr>ImageId = ''ami-0c02fb55956c7d316'', MinCount = 1, MaxCount = 1,
                     InstanceType_arg = instance_type, KeyName = ''my-python-key'',
                     SecurityGroupIds = [sg_id],
                     TagSpecifications =
                       [\<lparr>ResourceType = ''instance'',
                         Tags = [\<lparr>Key = ''Name'', Value = ''MyPythonInstance''\<rparr>]\<rparr>]\<rparr>
                # rest))"
proof (intro conjI allI impI)
  fix key_name u w'
  assume "api_describe_key_pairs p (world s) [key_name] = (Inr u, w')"
  then show "check_key_pair p key_name s =
            (True,
             s\<lparr>world := w',
               stdout := stdout s
                 @ [''Key pair '' @ apostrophe @ key_name @ apostrophe @ '' found in AWS.'']
                 @ (if files s (key_name @ ''.pem'') \<noteq> None
                    then [''Private key file '' @ apostrophe @ key_name @ ''.pem'' @ apostrophe
                          @ '' found locally.'']
                    else [warning_sign @ '' Warning: Private key file '' @ apostrophe
                          @ key_name @ ''.pem'' @ apostrophe
                          @ '' not found in current directory.'',
                          ''  You will need this file to connect to your instance via SSH.'']),
               calls := calls s @ [DescribeKeyPairs [key_name]]\<rparr>)"
    by (simp add: check_key_pair_def api_defs Let_def print_def path_exists_def)
next
  fix u w'
  assume h: "api_describe_key_pairs p (world s) [''my-python-key''] = (Inr u, w')"
  let ?banner = "print (replicate 60 CHR ''='')
        (print ''EC2 Instance Creator with Free-Tier Detection''
           (print (replicate 60 CHR ''='') s))"
  let ?s4 = "snd (check_key_pair p ''my-python-key'' ?banner)"
  let ?s5 = "snd (get_free_tier_instance_type p ?s4)"
  let ?s6 = "snd (create_security_group p ?s5)"
  have "fst (check_key_pair p ''my-python-key'' ?banner) = True"
    using h check_key_pair_found [of p ?banner "''my-python-key''" u w'] by simp
  then have key: "check_key_pair p ''my-python-key'' ?banner = (True, ?s4)"
    by (simp add: prod_eq_iff)
  have ty: "get_free_tier_instance_type p ?s4
              = (fst (get_free_tier_instance_type p ?s4), ?s5)"
    by simp
  have sg: "create_security_group p ?s5 = (fst (create_security_group p ?s5), ?s6)"
    by simp
  obtain rest where rest: "calls (snd (main p s)) = calls ?s6 @ rest"
    using main_calls_extend [OF key ty sg] by blast
  obtain more_calls where more_calls:
    "calls ?s6 = calls ?s5 @ DescribeSecurityGroups [''python-sg-for-ssh''] # more_calls"
    using create_security_group_calls_head [of p ?s5] by blast
  have "calls ?s5 = calls s
          @ [DescribeKeyPairs [''my-python-key''],
             DescribeInstanceTypes [\<lparr>Name = ''free-tier-eligible'', Values = [''true'']\<rparr>] 5]"
    by (simp add: get_free_tier_instance_type_frame check_key_pair_frame)
  with rest more_calls
  have "calls (snd (main p s)) =
          calls s
          @ [DescribeKeyPairs [''my-python-key''],
             DescribeInstanceTypes [\<lparr>Name = ''free-tier-eligible'', Values = [''true'']\<rparr>] 5,
             DescribeSecurityGroups [''python-sg-for-ssh'']]
          @ (more_calls @ rest)"
    by simp
  then show "\<exists>rest. calls (snd (main p s)) =
              calls s
              @ [DescribeKeyPairs [''my-python-key''],
                 DescribeInstanceTypes
                   [\<lparr>Name = ''free-tier-eligible'', Values = [''true'']\<rparr>] 5,
                 DescribeSecurityGroups [''python-sg-for-ssh'']]
              @ rest"
    by blast
next
  fix f
  note same = main_files_independent [of "s\<lparr>files := f\<rparr>" s p]
  show "fst (main p (s\<lparr>files := f\<rparr>)) = fst (main p s)"
    using same by simp
  show "world (snd (main p (s\<lparr>files := f\<rparr>))) = world (snd (main p s))"
    using same by simp
  show "calls (snd (main p (s\<lparr>files := f\<rparr>))) = calls (snd (main p s))"
    using same by simp
next
  fix s4 instance_type s5 sg_id s6
  assume "check_key_pair p ''my-python-key''
        (print (replicate 60 CHR ''='')
           (print ''EC2 Instance Creator with Free-Tier Detection''
              (print (replicate 60 CHR ''='') s))) = (True, s4) \<and>
      get_free_tier_instance_type p s4 = (instance_type, s5) \<and>
      create_security_group p s5 = (Inr (Some sg_id), s6) \<and> sg_id \<noteq> []"
  then show "\<exists>rest. calls (snd (main p s)) =
              calls s6
              @ CreateInstances
                   \<lparr>ImageId = ''ami-0c02fb55956c7d316'', MinCount = 1, MaxCount = 1,
                     InstanceType_arg = instance_type, KeyName = ''my-python-key'',
                     SecurityGroupIds = [sg_id],
                     TagSpecifications =
                       [\<lparr>ResourceType = ''instance'',
                         Tags = [\<lparr>Key = ''Name'', Value = ''MyPythonInstance''\<rparr>]\<rparr>]\<rparr>
                # rest"
    using main_launch_issued [of p s s4 instance_type s5 sg_id s6] by simp
qed

theorem check_key_pair_ignores_missing_file_witness:
  "files (start account) ''my-python-key.pem'' = None \<and>
   api_describe_key_pairs (stub_ec2 []) account [''my-python-key''] = (Inr (), account) \<and>
   check_key_pair (stub_ec2 []) ''my-python-key'' (start account) =
     (True,
      \<lparr>world = account,
       stdout =
         [''Key pair 'my-python-key' found in AWS.'',
          warning_sign @ '' Warning: Private key file 'my-python-key.pem' not found in ''
          @ ''current directory.'',
          ''  You will need this file to connect to your instance via SSH.''],
       files = Map.empty,
       calls = [DescribeKeyPairs [''my-python-key'']]\<rparr>) \<and>
   check_key_pair (stub_ec2 []) ''my-python-key''
     ((start account)\<lparr>files := [''my-python-key.pem'' \<mapsto> ''the private key'']\<rparr>) =
     (True,
      \<lparr>world = account,
       stdout =
         [''Key pair 'my-python-key' found in AWS.'',
          ''Private key file 'my-python-key.pem' found locally.''],
       files = [''my-python-key.pem'' \<mapsto> ''the private key''],
       calls = [DescribeKeyPairs [''my-python-key'']]\<rparr>) \<and>
   take 3 (calls (snd (main (stub_ec2 []) (start account)))) =
     [DescribeKeyPairs [''my-python-key''],
      DescribeInstanceTypes [\<lparr>Name = ''free-tier-eligible'', Values = [''true'']\<rparr>] 5,
      DescribeSecurityGroups [''python-sg-for-ssh'']] \<and>
   fst (main (stub_ec2 [])
          ((start account)\<lparr>files := [''my-python-key.pem'' \<mapsto> ''the private key'']\<rparr>))
     = fst (main (stub_ec2 []) (start account)) \<and>
   world (snd (main (stub_ec2 [])
          ((start account)\<lparr>files := [''my-python-key.pem'' \<mapsto> ''the private key'']\<rparr>)))
     = world (snd (main (stub_ec2 []) (start account))) \<and>
   calls (snd (main (stub_ec2 [])
          ((start account)\<lparr>files := [''my-python-key.pem'' \<mapsto> ''the private key'']\<rparr>)))
     = calls (snd (main (stub_ec2 []) (start account))) \<and>
   take 6 (calls (snd (main (stub_ec2 []) (start account)))) =
     [DescribeKeyPairs [''my-python-key''],
      DescribeInstanceTypes [\<lparr>Name = ''free-tier-eligible'', Values = [''true'']\<rparr>] 5,
      DescribeSecurityGroups [''python-sg-for-ssh''],
      CreateSecurityGroup ''python-sg-for-ssh''
        ''Security group for EC2 instance created via Python'',
      AuthorizeSecurityGroupIngress ''sg-0''
        [\<lparr>IpProtocol = ''tcp'', FromPort = 22, ToPort = 22,
          IpRanges = [\<lparr>CidrIp = ''0.0.0.0/0''\<rparr>]\<rparr>],
      CreateInstances
        \<lparr>ImageId = ''ami-0c02fb55956c7d316'', MinCount = 1, MaxCount = 1,
          InstanceType_arg = ''t2.micro'', KeyName = ''my-python-key'',
          SecurityGroupIds = [''sg-0''],
          TagSpecifications =
            [\<lparr>ResourceType = ''instance'',
              Tags = [\<lparr>Key = ''Name'', Value = ''MyPythonInstance''\<rparr>]\<rparr>]\<rparr>]"
proof -
  have lookup:
    "api_describe_key_pairs (stub_ec2 []) (world (start account)) [''my-python-key'']
       = (Inr (), account)"
    by (simp add: stub_ec2_def start_def account_def)
  note fact = check_key_pair_ignores_missing_file [of "stub_ec2 []" "start account"]
  from fact lookup
  have "check_key_pair (stub_ec2 []) ''my-python-key'' (start account) =
     (True,
      (start account)\<lparr>world := account,
        stdout := stdout (start account)
          @ [''Key pair '' @ apostrophe @ ''my-python-key'' @ apostrophe @ '' found in AWS.'']
          @ (if files (start account) (''my-python-key'' @ ''.pem'') \<noteq> None
             then [''Private key file '' @ apostrophe @ ''my-python-key'' @ ''.pem''
                   @ apostrophe @ '' found locally.'']
             else [warning_sign @ '' Warning: Private key file '' @ apostrophe
                   @ ''my-python-key'' @ ''.pem'' @ apostrophe
                   @ '' not found in current directory.'',
                   ''  You will need this file to connect to your instance via SSH.'']),
        calls := calls (start account) @ [DescribeKeyPairs [''my-python-key'']]\<rparr>)"
    by blast
  then have checked:
    "check_key_pair (stub_ec2 []) ''my-python-key'' (start account) =
     (True,
      \<lparr>world = account,
       stdout =
         [''Key pair 'my-python-key' found in AWS.'',
          warning_sign @ '' Warning: Private key file 'my-python-key.pem' not found in ''
          @ ''current directory.'',
          ''  You will need this file to connect to your instance via SSH.''],
       files = Map.empty,
       calls = [DescribeKeyPairs [''my-python-key'']]\<rparr>)"
    by (simp add: start_def)
  from fact lookup obtain rest where
    "calls (snd (main (stub_ec2 []) (start account))) =
       calls (start account)
       @ [DescribeKeyPairs [''my-python-key''],
          DescribeInstanceTypes [\<lparr>Name = ''free-tier-eligible'', Values = [''true'']\<rparr>] 5,
          DescribeSecurityGroups [''python-sg-for-ssh'']]
       @ rest"
    by blast
  then have goes_on: "take 3 (calls (snd (main (stub_ec2 []) (start account)))) =
     [DescribeKeyPairs [''my-python-key''],
      DescribeInstanceTypes [\<lparr>Name = ''free-tier-eligible'', Values = [''true'']\<rparr>] 5,
      DescribeSecurityGroups [''python-sg-for-ssh'']]"
    by (simp add: start_def)
  let ?held = "(start account)\<lparr>files := [''my-python-key.pem'' \<mapsto> ''the private key'']\<rparr>"
  have "api_describe_key_pairs (stub_ec2 []) (world ?held) [''my-python-key'']
          = (Inr (), account)"
    by (simp add: stub_ec2_def start_def account_def)
  with check_key_pair_ignores_missing_file [of "stub_ec2 []" ?held]
  have "check_key_pair (stub_ec2 []) ''my-python-key'' ?held =
     (True,
      ?held\<lparr>world := account,
        stdout := stdout ?held
          @ [''Key pair '' @ apostrophe @ ''my-python-key'' @ apostrophe @ '' found in AWS.'']
          @ (if files ?held (''my-python-key'' @ ''.pem'') \<noteq> None
             then [''Private key file '' @ apostrophe @ ''my-python-key'' @ ''.pem''
                   @ apostrophe @ '' found locally.'']
             else [warning_sign @ '' Warning: Private key file '' @ apostrophe
                   @ ''my-python-key'' @ ''.pem'' @ apostrophe
                   @ '' not found in current directory.'',
                   ''  You will need this file to connect to your instance via SSH.'']),
        calls := calls ?held @ [DescribeKeyPairs [''my-python-key'']]\<rparr>)"
    by blast
  then have held:
    "check_key_pair (stub_ec2 []) ''my-python-key'' ?held =
     (True,
      \<lparr>world = account,
       stdout =
         [''Key pair 'my-python-key' found in AWS.'',
          ''Private key file 'my-python-key.pem' found locally.''],
       files = [''my-python-key.pem'' \<mapsto> ''the private key''],
       calls = [DescribeKeyPairs [''my-python-key'']]\<rparr>)"
    by (simp add: start_def)
  have same:
    "fst (main (stub_ec2 []) ?held) = fst (main (stub_ec2 []) (start account)) \<and>
     world (snd (main (stub_ec2 []) ?held)) = world (snd (main (stub_ec2 []) (start account))) \<and>
     calls (snd (main (stub_ec2 []) ?held)) = calls (snd (main (stub_ec2 []) (start account)))"
    using fact by blast
  let ?p = "stub_ec2 []"
  let ?banner = "print (replicate 60 CHR ''='')
        (print ''EC2 Instance Creator with Free-Tier Detection''
           (print (replicate 60 CHR ''='') (start account)))"
  let ?s4 = "snd (check_key_pair ?p ''my-python-key'' ?banner)"
  let ?ty = "fst (get_free_tier_instance_type ?p ?s4)"
  let ?s5 = "snd (get_free_tier_instance_type ?p ?s4)"
  let ?s6 = "snd (create_security_group ?p ?s5)"
  have "fst (check_key_pair ?p ''my-python-key'' ?banner) = True"
    by (simp add: check_key_pair_def api_defs stub_ec2_def start_def account_def Let_def)
  then have key: "check_key_pair ?p ''my-python-key'' ?banner = (True, ?s4)"
    by (simp add: prod_eq_iff)
  have ty: "get_free_tier_instance_type ?p ?s4 = (?ty, ?s5)"
    by simp
  have "fst (create_security_group ?p ?s5) = Inr (Some ''sg-0'')"
    by (simp add: create_security_group_def get_free_tier_instance_type_def check_key_pair_def
          api_defs stub_ec2_def start_def account_def Let_def group_not_found_def)
  then have sg: "create_security_group ?p ?s5 = (Inr (Some ''sg-0''), ?s6)"
    by (simp add: prod_eq_iff)
  have named: "''sg-0'' \<noteq> []"
    by simp
  have ty_value: "?ty = ''t2.micro''"
    by (simp add: get_free_tier_instance_type_def check_key_pair_def
          api_defs stub_ec2_def start_def account_def Let_def)
  have log: "calls ?s6 =
     [DescribeKeyPairs [''my-python-key''],
      DescribeInstanceTypes [\<lparr>Name = ''free-tier-eligible'', Values = [''true'']\<rparr>] 5,
      DescribeSecurityGroups [''python-sg-for-ssh''],
      CreateSecurityGroup ''python-sg-for-ssh''
        ''Security group for EC2 instance created via Python'',
      AuthorizeSecurityGroupIngress ''sg-0''
        [\<lparr>IpProtocol = ''tcp'', FromPort = 22, ToPort = 22,
          IpRanges = [\<lparr>CidrIp = ''0.0.0.0/0''\<rparr>]\<rparr>]]"
    by (simp add: create_security_group_def get_free_tier_instance_type_def check_key_pair_def
          api_defs stub_ec2_def start_def account_def Let_def group_not_found_def)
  from fact key ty sg named obtain launched where
    "calls (snd (main ?p (start account))) =
       calls ?s6
       @ CreateInstances
           \<lparr>ImageId = ''ami-0c02fb55956c7d316'', MinCount = 1, MaxCount = 1,
             InstanceType_arg = ?ty, KeyName = ''my-python-key'',
             SecurityGroupIds = [''sg-0''],
             TagSpecifications =
               [\<lparr>ResourceType = ''instance'',
                 Tags = [\<lparr>Key = ''Name'', Value = ''MyPythonInstance''\<rparr>]\<rparr>]\<rparr>
         # launched"
    by blast
  then have launch:
    "take 6 (calls (snd (main ?p (start account)))) =
     [DescribeKeyPairs [''my-python-key''],
      DescribeInstanceTypes [\<lparr>Name = ''free-tier-eligible'', Values = [''true'']\<rparr>] 5,
      DescribeSecurityGroups [''python-sg-for-ssh''],
      CreateSecurityGroup ''python-sg-for-ssh''
        ''Security group for EC2 instance created via Python'',
      AuthorizeSecurityGroupIngress ''sg-0''
        [\<lparr>IpProtocol = ''tcp'', FromPort = 22, ToPort = 22,
          IpRanges = [\<lparr>CidrIp = ''0.0.0.0/0''\<rparr>]\<rparr>],
      CreateInstances
        \<lparr>ImageId = ''ami-0c02fb55956c7d316'', MinCount = 1, MaxCount = 1,
          InstanceType_arg = ''t2.micro'', KeyName = ''my-python-key'',
          SecurityGroupIds = [''sg-0''],
          TagSpecifications =
            [\<lparr>ResourceType = ''instance'',
              Tags = [\<lparr>Key = ''Name'', Value = ''MyPythonInstance''\<rparr>]\<rparr>]\<rparr>]"
    unfolding log ty_value by simp
  from checked held lookup goes_on same launch show ?thesis
    by (simp add: start_def)
qed

section \<open>Creating the group\<close>

text \<open>
  Claim C4, as the code has it. When the lookup of \<^verbatim>\<open>python-sg-for-ssh\<close> fails with an
  error whose text contains \<^verbatim>\<open>InvalidGroup.NotFound\<close>, the creation succeeds and the
  authorisation of the ingress rule succeeds too, \<^verbatim>\<open>create_security_group\<close> returns the
  identifier the provider assigned. Its calls are the lookup, one creation under the
  fixed name and description, and one authorisation, for that identifier, of the single
  rule \<^verbatim>\<open>tcp\<close> 22 to 22 from \<^verbatim>\<open>0.0.0.0/0\<close>.
\<close>

theorem create_security_group_creates:
  assumes "api_describe_security_groups p (world s) [''python-sg-for-ssh''] = (Inl e, w1)"
    and "str_in ''InvalidGroup.NotFound'' (str e)"
    and "api_create_security_group p w1 ''python-sg-for-ssh''
           ''Security group for EC2 instance created via Python'' = (Inr created, w2)"
    and "api_authorize_security_group_ingress p w2 (GroupId created)
           [\<lparr>IpProtocol = ''tcp'', FromPort = 22, ToPort = 22,
             IpRanges = [\<lparr>CidrIp = ''0.0.0.0/0''\<rparr>]\<rparr>] = (Inr (), w3)"
  shows "create_security_group p s =
     (Inr (Some (GroupId created)),
      s\<lparr>world := w3,
        stdout := stdout s
          @ [''Creating new security group: 'python-sg-for-ssh'' @ apostrophe,
             ''Security Group Created: '' @ GroupId created,
             ''SSH rule added (Port 22 open to world).''],
        calls := calls s
          @ [DescribeSecurityGroups [''python-sg-for-ssh''],
             CreateSecurityGroup ''python-sg-for-ssh''
               ''Security group for EC2 instance created via Python'',
             AuthorizeSecurityGroupIngress (GroupId created)
               [\<lparr>IpProtocol = ''tcp'', FromPort = 22, ToPort = 22,
                 IpRanges = [\<lparr>CidrIp = ''0.0.0.0/0''\<rparr>]\<rparr>]]\<rparr>)"
  using assms by (rule create_security_group_created)

theorem create_security_group_creates_witness:
  "api_describe_security_groups (stub_ec2 []) account [''python-sg-for-ssh'']
     = (Inl group_not_found, account) \<and>
   str_in ''InvalidGroup.NotFound'' (str group_not_found) \<and>
   create_security_group (stub_ec2 []) (start account) =
     (Inr (Some ''sg-0''),
      \<lparr>world = account\<lparr>sw_groups := [(''python-sg-for-ssh'', ''sg-0'')]\<rparr>,
       stdout =
         [''Creating new security group: 'python-sg-for-ssh'' @ apostrophe,
          ''Security Group Created: sg-0'',
          ''SSH rule added (Port 22 open to world).''],
       files = Map.empty,
       calls =
         [DescribeSecurityGroups [''python-sg-for-ssh''],
          CreateSecurityGroup ''python-sg-for-ssh''
            ''Security group for EC2 instance created via Python'',
          AuthorizeSecurityGroupIngress ''sg-0''
            [\<lparr>IpProtocol = ''tcp'', FromPort = 22, ToPort = 22,
              IpRanges = [\<lparr>CidrIp = ''0.0.0.0/0''\<rparr>]\<rparr>]]\<rparr>)"
proof -
  let ?w = "account\<lparr>sw_groups := [(''python-sg-for-ssh'', ''sg-0'')]\<rparr>"
  have lookup:
    "api_describe_security_groups (stub_ec2 []) (world (start account)) [''python-sg-for-ssh'']
       = (Inl group_not_found, account)"
    by (simp add: stub_ec2_def start_def account_def)
  have marked: "str_in ''InvalidGroup.NotFound'' (str group_not_found)"
    by (simp add: group_not_found_def)
  have creation:
    "api_create_security_group (stub_ec2 []) account ''python-sg-for-ssh''
       ''Security group for EC2 instance created via Python'' = (Inr \<lparr>GroupId = ''sg-0''\<rparr>, ?w)"
    by (simp add: stub_ec2_def account_def Let_def)
  have rule:
    "api_authorize_security_group_ingress (stub_ec2 []) ?w (GroupId \<lparr>GroupId = ''sg-0''\<rparr>)
       [\<lparr>IpProtocol = ''tcp'', FromPort = 22, ToPort = 22,
         IpRanges = [\<lparr>CidrIp = ''0.0.0.0/0''\<rparr>]\<rparr>] = (Inr (), ?w)"
    by (simp add: stub_ec2_def)
  from create_security_group_creates [OF lookup marked creation rule] lookup marked
  show ?thesis
    by (simp add: start_def)
qed

text \<open>
  Claim C4 itself asks only for the creation to succeed. It fails where the provider
  creates the group and then refuses the ingress rule: the group exists, and the function
  returns \<^verbatim>\<open>None\<close>.
\<close>

theorem create_security_group_rule_refused:
  "api_describe_security_groups (stub_ec2 [''AuthorizeSecurityGroupIngress'']) account
     [''python-sg-for-ssh''] = (Inl group_not_found, account) \<and>
   str_in ''InvalidGroup.NotFound'' (str group_not_found) \<and>
   api_create_security_group (stub_ec2 [''AuthorizeSecurityGroupIngress'']) account
     ''python-sg-for-ssh'' ''Security group for EC2 instance created via Python''
     = (Inr \<lparr>GroupId = ''sg-0''\<rparr>, account\<lparr>sw_groups := [(''python-sg-for-ssh'', ''sg-0'')]\<rparr>) \<and>
   fst (create_security_group (stub_ec2 [''AuthorizeSecurityGroupIngress'']) (start account))
     = Inr None \<and>
   fst (create_security_group (stub_ec2 [''AuthorizeSecurityGroupIngress'']) (start account))
     \<noteq> Inr (Some ''sg-0'') \<and>
   sw_groups (world (snd (create_security_group (stub_ec2 [''AuthorizeSecurityGroupIngress''])
                            (start account))))
     = [(''python-sg-for-ssh'', ''sg-0'')]"
  by (simp add: create_security_group_def api_defs stub_ec2_def start_def account_def
        group_not_found_def Let_def)

section \<open>Failures of the group step\<close>

text \<open>
  Claim C7. \<^verbatim>\<open>create_security_group\<close> returns \<^verbatim>\<open>None\<close> when the lookup fails with an error
  that is not the not-found condition, when the creation fails, and when the
  authorisation of the rule fails. When it returns \<^verbatim>\<open>None\<close> in \<^verbatim>\<open>main\<close>, \<^verbatim>\<open>main\<close> prints
  \<^verbatim>\<open>Failed to get a security group. Exiting.\<close> and returns: no call follows the group step,
  and no call of the run launches an instance.
\<close>

theorem group_failure_stops:
  "(\<forall>e w1.
      api_describe_security_groups p (world s) [''python-sg-for-ssh''] = (Inl e, w1) \<and>
      \<not> str_in ''InvalidGroup.NotFound'' (str e)
      \<longrightarrow> fst (create_security_group p s) = Inr None) \<and>
   (\<forall>e w1 sg_error w2.
      api_describe_security_groups p (world s) [''python-sg-for-ssh''] = (Inl e, w1) \<and>
      str_in ''InvalidGroup.NotFound'' (str e) \<and>
      api_create_security_group p w1 ''python-sg-for-ssh''
        ''Security group for EC2 instance created via Python'' = (Inl sg_error, w2)
      \<longrightarrow> fst (create_security_group p s) = Inr None) \<and>
   (\<forall>e w1 created w2 sg_error w3.
      api_describe_security_groups p (world s) [''python-sg-for-ssh''] = (Inl e, w1) \<and>
      str_in ''InvalidGroup.NotFound'' (str e) \<and>
      api_create_security_group p w1 ''python-sg-for-ssh''
        ''Security group for EC2 instance created via Python'' = (Inr created, w2) \<and>
      api_authorize_security_group_ingress p w2 (GroupId created)
        [\<lparr>IpProtocol = ''tcp'', FromPort = 22, ToPort = 22,
          IpRanges = [\<lparr>CidrIp = ''0.0.0.0/0''\<rparr>]\<rparr>] = (Inl sg_error, w3)
      \<longrightarrow> fst (create_security_group p s) = Inr None) \<and>
   (\<forall>s4 instance_type s5 s6.
      check_key_pair p ''my-python-key''
        (print (replicate 60 CHR ''='')
           (print ''EC2 Instance Creator with Free-Tier Detection''
              (print (replicate 60 CHR ''='') s))) = (True, s4) \<and>
      get_free_tier_instance_type p s4 = (instance_type, s5) \<and>
      create_security_group p s5 = (Inr None, s6)
      \<longrightarrow> main p s = (Returned, print ''Failed to get a security group. Exiting.'' s6) \<and>
          (\<forall>args. CreateInstances args
                     \<notin> set (drop (length (calls s)) (calls (snd (main p s))))))"
proof (intro conjI allI impI)
  fix s4 instance_type s5 s6
  assume h: "check_key_pair p ''my-python-key''
        (print (replicate 60 CHR ''='')
           (print ''EC2 Instance Creator with Free-Tier Detection''
              (print (replicate 60 CHR ''='') s))) = (True, s4) \<and>
      get_free_tier_instance_type p s4 = (instance_type, s5) \<and>
      create_security_group p s5 = (Inr None, s6)"
  then have run: "main p s = (Returned, print ''Failed to get a security group. Exiting.'' s6)"
    using main_no_group [of p s s4 instance_type s5 None s6] by simp
  then show "main p s = (Returned, print ''Failed to get a security group. Exiting.'' s6)" .
  fix args
  obtain new where new: "calls (snd (create_security_group p s5)) = calls s5 @ new"
    and none: "\<forall>args. CreateInstances args \<notin> set new"
    using create_security_group_calls [of p s5] by blast
  have "calls s4 = calls s @ [DescribeKeyPairs [''my-python-key'']]"
    using h check_key_pair_frame(1)
            [of p "''my-python-key''"
                "print (replicate 60 CHR ''='')
                   (print ''EC2 Instance Creator with Free-Tier Detection''
                      (print (replicate 60 CHR ''='') s))"]
    by simp
  moreover have "calls s5 = calls s4
      @ [DescribeInstanceTypes [\<lparr>Name = ''free-tier-eligible'', Values = [''true'']\<rparr>] 5]"
    using h get_free_tier_instance_type_frame(1) [of p s4] by simp
  moreover have "calls s6 = calls s5 @ new"
    using h new by simp
  ultimately have "drop (length (calls s)) (calls (snd (main p s)))
      = [DescribeKeyPairs [''my-python-key''],
         DescribeInstanceTypes [\<lparr>Name = ''free-tier-eligible'', Values = [''true'']\<rparr>] 5]
        @ new"
    using run by simp
  with none show "CreateInstances args \<notin> set (drop (length (calls s)) (calls (snd (main p s))))"
    by simp
qed (auto intro: create_security_group_None)

theorem group_failure_stops_witness:
  "fst (create_security_group (stub_ec2 [''DescribeSecurityGroups'']) (start account))
     = Inr None \<and>
   \<not> str_in ''InvalidGroup.NotFound'' (str (denied ''DescribeSecurityGroups'')) \<and>
   fst (create_security_group (stub_ec2 [''CreateSecurityGroup'']) (start account))
     = Inr None \<and>
   fst (create_security_group (stub_ec2 [''AuthorizeSecurityGroupIngress'']) (start account))
     = Inr None \<and>
   fst (main (stub_ec2 [''DescribeSecurityGroups'']) (start account)) = Returned \<and>
   last (stdout (snd (main (stub_ec2 [''DescribeSecurityGroups'']) (start account))))
     = ''Failed to get a security group. Exiting.'' \<and>
   calls (snd (main (stub_ec2 [''DescribeSecurityGroups'']) (start account)))
     = [DescribeKeyPairs [''my-python-key''],
        DescribeInstanceTypes [\<lparr>Name = ''free-tier-eligible'', Values = [''true'']\<rparr>] 5,
        DescribeSecurityGroups [''python-sg-for-ssh'']]"
proof -
  let ?w = "account\<lparr>sw_groups := [(''python-sg-for-ssh'', ''sg-0'')]\<rparr>"
  let ?rule = "[\<lparr>IpProtocol = ''tcp'', FromPort = 22, ToPort = 22,
                 IpRanges = [\<lparr>CidrIp = ''0.0.0.0/0''\<rparr>]\<rparr>]"
  have other: "\<not> str_in ''InvalidGroup.NotFound'' (str (denied ''DescribeSecurityGroups''))"
    by (simp add: denied_def)
  have marked: "str_in ''InvalidGroup.NotFound'' (str group_not_found)"
    by (simp add: group_not_found_def)
  have l1: "api_describe_security_groups (stub_ec2 [''DescribeSecurityGroups''])
              (world (start account)) [''python-sg-for-ssh'']
              = (Inl (denied ''DescribeSecurityGroups''), account)"
    by (simp add: stub_ec2_def start_def)
  have l2: "api_describe_security_groups (stub_ec2 [''CreateSecurityGroup''])
              (world (start account)) [''python-sg-for-ssh''] = (Inl group_not_found, account)"
    by (simp add: stub_ec2_def start_def account_def)
  have c2: "api_create_security_group (stub_ec2 [''CreateSecurityGroup'']) account
              ''python-sg-for-ssh'' ''Security group for EC2 instance created via Python''
              = (Inl (denied ''CreateSecurityGroup''), account)"
    by (simp add: stub_ec2_def)
  have l3: "api_describe_security_groups (stub_ec2 [''AuthorizeSecurityGroupIngress''])
              (world (start account)) [''python-sg-for-ssh''] = (Inl group_not_found, account)"
    by (simp add: stub_ec2_def start_def account_def)
  have c3: "api_create_security_group (stub_ec2 [''AuthorizeSecurityGroupIngress'']) account
              ''python-sg-for-ssh'' ''Security group for EC2 instance created via Python''
              = (Inr \<lparr>GroupId = ''sg-0''\<rparr>, ?w)"
    by (simp add: stub_ec2_def account_def Let_def)
  have a3: "api_authorize_security_group_ingress (stub_ec2 [''AuthorizeSecurityGroupIngress''])
              ?w (GroupId \<lparr>GroupId = ''sg-0''\<rparr>) ?rule
              = (Inl (denied ''AuthorizeSecurityGroupIngress''), ?w)"
    by (simp add: stub_ec2_def)
  have r1: "fst (create_security_group (stub_ec2 [''DescribeSecurityGroups'']) (start account))
              = Inr None"
    using group_failure_stops [of "stub_ec2 [''DescribeSecurityGroups'']" "start account"]
      l1 other by blast
  have r2: "fst (create_security_group (stub_ec2 [''CreateSecurityGroup'']) (start account))
              = Inr None"
    using group_failure_stops [of "stub_ec2 [''CreateSecurityGroup'']" "start account"]
      l2 marked c2 by blast
  have r3: "fst (create_security_group (stub_ec2 [''AuthorizeSecurityGroupIngress''])
                   (start account)) = Inr None"
    using group_failure_stops [of "stub_ec2 [''AuthorizeSecurityGroupIngress'']" "start account"]
      l3 marked c3 a3 by blast
  let ?p = "stub_ec2 [''DescribeSecurityGroups'']"
  let ?banner = "print (replicate 60 CHR ''='')
        (print ''EC2 Instance Creator with Free-Tier Detection''
           (print (replicate 60 CHR ''='') (start account)))"
  let ?s4 = "snd (check_key_pair ?p ''my-python-key'' ?banner)"
  let ?s5 = "snd (get_free_tier_instance_type ?p ?s4)"
  let ?s6 = "snd (create_security_group ?p ?s5)"
  have "fst (check_key_pair ?p ''my-python-key'' ?banner) = True"
    by (simp add: check_key_pair_def api_defs stub_ec2_def start_def account_def Let_def)
  then have key: "check_key_pair ?p ''my-python-key'' ?banner = (True, ?s4)"
    by (simp add: prod_eq_iff)
  have ty: "get_free_tier_instance_type ?p ?s4 = (fst (get_free_tier_instance_type ?p ?s4), ?s5)"
    by simp
  have "world ?s5 = account"
    by (simp add: get_free_tier_instance_type_def check_key_pair_def api_defs stub_ec2_def
          start_def account_def Let_def)
  then have "api_describe_security_groups ?p (world ?s5) [''python-sg-for-ssh'']
               = (Inl (denied ''DescribeSecurityGroups''), account)"
    by (simp add: stub_ec2_def)
  then have "fst (create_security_group ?p ?s5) = Inr None"
    by (rule create_security_group_None(1) [OF _ other])
  then have sg: "create_security_group ?p ?s5 = (Inr None, ?s6)"
    by (simp add: prod_eq_iff)
  have run: "main ?p (start account)
               = (Returned, print ''Failed to get a security group. Exiting.'' ?s6)"
    using group_failure_stops [of ?p "start account"] key ty sg by blast
  have log: "calls ?s6
     = [DescribeKeyPairs [''my-python-key''],
        DescribeInstanceTypes [\<lparr>Name = ''free-tier-eligible'', Values = [''true'']\<rparr>] 5,
        DescribeSecurityGroups [''python-sg-for-ssh'']]"
    by (simp add: create_security_group_def get_free_tier_instance_type_def check_key_pair_def
          api_defs stub_ec2_def start_def account_def Let_def denied_def)
  from r1 r2 r3 other log show ?thesis
    unfolding run by simp
qed

section \<open>The report of a launched instance\<close>

text \<open>
  Claim C5. In a run of \<^verbatim>\<open>main\<close> in which the key pair is found, a group identifier is
  obtained, the launch succeeds, the wait for the running state returns and the refreshed
  instance has no public address (\<^verbatim>\<open>None\<close> or the empty string), the files are those of
  the start, so \<^verbatim>\<open>instance_connection.txt\<close> is not written; after the launch messages
  \<^verbatim>\<open>main\<close> prints the instance state and the two lines of the status command, and nothing
  of the connection instructions. \<^verbatim>\<open>print_windows_connection_instructions\<close> itself
  returns at once for such an address.
\<close>

theorem no_address_no_report:
  fixes p :: "'w ec2"
  assumes "check_key_pair p ''my-python-key''
             (print (replicate 60 CHR ''='')
                (print ''EC2 Instance Creator with Free-Tier Detection''
                   (print (replicate 60 CHR ''='') s))) = (True, s4)"
    and "get_free_tier_instance_type p s4 = (instance_type, s5)"
    and "create_security_group p s5 = (Inr (Some sg_id), s6)" and "sg_id \<noteq> []"
    and "api_create_instances p (world s6)
           \<lparr>ImageId = ''ami-0c02fb55956c7d316'', MinCount = 1, MaxCount = 1,
             InstanceType_arg = instance_type, KeyName = ''my-python-key'',
             SecurityGroupIds = [sg_id],
             TagSpecifications =
               [\<lparr>ResourceType = ''instance'',
                 Tags = [\<lparr>Key = ''Name'', Value = ''MyPythonInstance''\<rparr>]\<rparr>]\<rparr>
           = (Inr (instance_id # others), w7)"
    and "api_wait_until_running p w7 instance_id = (Inr (), w8)"
    and "api_load p w8 instance_id = (Inr instance, w9)"
    and "\<not> truthy (public_ip_address instance)"
  shows "main p s =
     (Returned,
      s6\<lparr>world := w9,
         stdout := stdout s6
           @ [''\<newline>'' @ replicate 50 CHR ''='',
              ''SUCCESS: EC2 Instance Launched!'',
              replicate 50 CHR ''='',
              ''Instance ID: '' @ instance_id,
              ''Instance Type: '' @ instance_type,
              ''Key Pair: my-python-key'',
              ''Security Group: '' @ sg_id,
              ''\<newline>Waiting for instance to initialize...'',
              ''Instance State: '' @ state_Name instance,
              ''\<newline>Use this command to check status:'',
              ''aws ec2 describe-instances --instance-ids '' @ instance_id],
         calls := calls s6
           @ [CreateInstances
                \<lparr>ImageId = ''ami-0c02fb55956c7d316'', MinCount = 1, MaxCount = 1,
                  InstanceType_arg = instance_type, KeyName = ''my-python-key'',
                  SecurityGroupIds = [sg_id],
                  TagSpecifications =
                    [\<lparr>ResourceType = ''instance'',
                      Tags = [\<lparr>Key = ''Name'', Value = ''MyPythonInstance''\<rparr>]\<rparr>]\<rparr>,
              WaitUntilRunning instance_id, Load instance_id]\<rparr>) \<and>
   files (snd (main p s)) = files s \<and>
   (\<forall>key_name (t :: 'w state).
      print_windows_connection_instructions key_name (public_ip_address instance) t = t)"
proof -
  have run: "main p s =
     (Returned,
      s6\<lparr>world := w9,
         stdout := stdout s6
           @ [''\<newline>'' @ replicate 50 CHR ''='',
              ''SUCCESS: EC2 Instance Launched!'',
              replicate 50 CHR ''='',
              ''Instance ID: '' @ instance_id,
              ''Instance Type: '' @ instance_type,
              ''Key Pair: my-python-key'',
              ''Security Group: '' @ sg_id,
              ''\<newline>Waiting for instance to initialize...'',
              ''Instance State: '' @ state_Name instance,
              ''\<newline>Use this command to check status:'',
              ''aws ec2 describe-instances --instance-ids '' @ instance_id],
         calls := calls s6
           @ [CreateInstances
                \<lparr>ImageId = ''ami-0c02fb55956c7d316'', MinCount = 1, MaxCount = 1,
                  InstanceType_arg = instance_type, KeyName = ''my-python-key'',
                  SecurityGroupIds = [sg_id],
                  TagSpecifications =
                    [\<lparr>ResourceType = ''instance'',
                      Tags = [\<lparr>Key = ''Name'', Value = ''MyPythonInstance''\<rparr>]\<rparr>]\<rparr>,
              WaitUntilRunning instance_id, Load instance_id]\<rparr>)"
    using assms by (rule main_running_no_address)
  have "files s6 = files s5"
    using create_security_group_files [of p s5] assms(3) by simp
  moreover have "files s5 = files s4"
    using get_free_tier_instance_type_frame(2) [of p s4] assms(2) by simp
  moreover have "files s4 = files s"
    using check_key_pair_frame(2)
            [of p "''my-python-key''"
                "print (replicate 60 CHR ''='')
                   (print ''EC2 Instance Creator with Free-Tier Detection''
                      (print (replicate 60 CHR ''='') s))"] assms(1)
    by simp
  ultimately have kept: "files (snd (main p s)) = files s"
    unfolding run by simp
  have "\<forall>key_name (t :: 'w state).
      print_windows_connection_instructions key_name (public_ip_address instance) t = t"
    using assms(8) by (simp add: print_windows_connection_instructions_def)
  with run kept show ?thesis
    by blast
qed

theorem no_address_no_report_witness:
  "fst (main (stub_ec2 []) (start (account\<lparr>sw_public_ip := None\<rparr>))) = Returned \<and>
   files (snd (main (stub_ec2 []) (start (account\<lparr>sw_public_ip := None\<rparr>)))) = Map.empty \<and>
   drop 10 (stdout (snd (main (stub_ec2 []) (start (account\<lparr>sw_public_ip := None\<rparr>)))))
     = [''\<newline>'' @ replicate 50 CHR ''='',
        ''SUCCESS: EC2 Instance Launched!'',
        replicate 50 CHR ''='',
        ''Instance ID: i-0123456789abcdef0'',
        ''Instance Type: t2.micro'',
        ''Key Pair: my-python-key'',
        ''Security Group: sg-0'',
        ''\<newline>Waiting for instance to initialize...'',
        ''Instance State: running'',
        ''\<newline>Use this command to check status:'',
        ''aws ec2 describe-instances --instance-ids i-0123456789abcdef0''] \<and>
   print_windows_connection_instructions ''my-python-key'' None
     (start (account\<lparr>sw_public_ip := None\<rparr>)) = start (account\<lparr>sw_public_ip := None\<rparr>)"
proof -
  let ?p = "stub_ec2 []"
  let ?s = "start (account\<lparr>sw_public_ip := None\<rparr>)"
  let ?banner = "print (replicate 60 CHR ''='')
        (print ''EC2 Instance Creator with Free-Tier Detection''
           (print (replicate 60 CHR ''='') ?s))"
  let ?s4 = "snd (check_key_pair ?p ''my-python-key'' ?banner)"
  let ?ty = "fst (get_free_tier_instance_type ?p ?s4)"
  let ?s5 = "snd (get_free_tier_instance_type ?p ?s4)"
  let ?s6 = "snd (create_security_group ?p ?s5)"
  let ?w = "account\<lparr>sw_public_ip := None, sw_groups := [(''python-sg-for-ssh'', ''sg-0'')]\<rparr>"
  have "fst (check_key_pair ?p ''my-python-key'' ?banner) = True"
    by (simp add: check_key_pair_def api_defs stub_ec2_def start_def account_def Let_def)
  then have key: "check_key_pair ?p ''my-python-key'' ?banner = (True, ?s4)"
    by (simp add: prod_eq_iff)
  have ty: "get_free_tier_instance_type ?p ?s4 = (?ty, ?s5)"
    by simp
  have "fst (create_security_group ?p ?s5) = Inr (Some ''sg-0'')"
    by (simp add: create_security_group_def get_free_tier_instance_type_def check_key_pair_def
          api_defs stub_ec2_def start_def account_def Let_def group_not_found_def)
  then have sg: "create_security_group ?p ?s5 = (Inr (Some ''sg-0''), ?s6)"
    by (simp add: prod_eq_iff)
  have named: "''sg-0'' \<noteq> []"
    by simp
  have w6: "world ?s6 = ?w"
    by (simp add: create_security_group_def get_free_tier_instance_type_def check_key_pair_def
          api_defs stub_ec2_def start_def account_def Let_def group_not_found_def)
  have launch:
    "api_create_instances ?p (world ?s6)
       \<lparr>ImageId = ''ami-0c02fb55956c7d316'', MinCount = 1, MaxCount = 1,
         InstanceType_arg = ?ty, KeyName = ''my-python-key'',
         SecurityGroupIds = [''sg-0''],
         TagSpecifications =
           [\<lparr>ResourceType = ''instance'',
             Tags = [\<lparr>Key = ''Name'', Value = ''MyPythonInstance''\<rparr>]\<rparr>]\<rparr>
       = (Inr (''i-0123456789abcdef0'' # []), ?w)"
    unfolding w6 by (simp add: stub_ec2_def)
  have running: "api_wait_until_running ?p ?w ''i-0123456789abcdef0'' = (Inr (), ?w)"
    by (simp add: stub_ec2_def)
  let ?instance = "\<lparr>state_Name = ''running'', public_ip_address = None\<rparr>"
  have loaded: "api_load ?p ?w ''i-0123456789abcdef0'' = (Inr ?instance, ?w)"
    by (simp add: stub_ec2_def account_def)
  have absent: "\<not> truthy (public_ip_address ?instance)"
    by simp
  note fact = no_address_no_report [OF key ty sg named launch running loaded absent]
  have ty_value: "?ty = ''t2.micro''"
    by (simp add: get_free_tier_instance_type_def check_key_pair_def
          api_defs stub_ec2_def start_def account_def Let_def)
  have out: "stdout ?s6 =
      [replicate 60 CHR ''='',
       ''EC2 Instance Creator with Free-Tier Detection'',
       replicate 60 CHR ''='',
       ''Key pair 'my-python-key' found in AWS.'',
       warning_sign @ '' Warning: Private key file 'my-python-key.pem' not found in ''
       @ ''current directory.'',
       ''  You will need this file to connect to your instance via SSH.'',
       ''Found free-tier instance type: t2.micro'',
       ''Creating new security group: 'python-sg-for-ssh'' @ apostrophe,
       ''Security Group Created: sg-0'',
       ''SSH rule added (Port 22 open to world).'']"
    by (simp add: create_security_group_def get_free_tier_instance_type_def check_key_pair_def
          api_defs stub_ec2_def start_def account_def Let_def group_not_found_def print_def
          path_exists_def)
  note run = fact [THEN conjunct1]
  note kept = fact [THEN conjunct2, THEN conjunct1]
  note silent = fact [THEN conjunct2, THEN conjunct2]
  have "fst (main ?p ?s) = Returned"
    unfolding run by simp
  moreover have "files (snd (main ?p ?s)) = Map.empty"
    unfolding kept by (simp add: start_def)
  moreover have "print_windows_connection_instructions ''my-python-key'' None ?s = ?s"
    using silent by simp
  moreover have "stdout (snd (main ?p ?s)) = stdout ?s6
           @ [''\<newline>'' @ replicate 50 CHR ''='',
              ''SUCCESS: EC2 Instance Launched!'',
              replicate 50 CHR ''='',
              ''Instance ID: '' @ ''i-0123456789abcdef0'',
              ''Instance Type: '' @ ?ty,
              ''Key Pair: my-python-key'',
              ''Security Group: '' @ ''sg-0'',
              ''\<newline>Waiting for instance to initialize...'',
              ''Instance State: '' @ ''running'',
              ''\<newline>Use this command to check status:'',
              ''aws ec2 describe-instances --instance-ids '' @ ''i-0123456789abcdef0'']"
    unfolding run by simp
  ultimately show ?thesis
    unfolding ty_value out by simp
qed

text \<open>
  Claim C6. In such a run in which the refreshed instance has a public address \<open>ip\<close>,
  \<^verbatim>\<open>main\<close> returns and leaves the files of the start with \<^verbatim>\<open>instance_connection.txt\<close>
  holding exactly the four lines \<^verbatim>\<open>Instance ID: <id>\<close>, \<^verbatim>\<open>Public IP: <ip>\<close>,
  \<^verbatim>\<open>Key Pair: my-python-key.pem\<close> and \<^verbatim>\<open>Connect: ec2-user@<ip>\<close>, each ended by a newline,
  whatever the file held before.
\<close>

theorem report_file_written:
  assumes "check_key_pair p ''my-python-key''
             (print (replicate 60 CHR ''='')
                (print ''EC2 Instance Creator with Free-Tier Detection''
                   (print (replicate 60 CHR ''='') s))) = (True, s4)"
    and "get_free_tier_instance_type p s4 = (instance_type, s5)"
    and "create_security_group p s5 = (Inr (Some sg_id), s6)" and "sg_id \<noteq> []"
    and "api_create_instances p (world s6)
           \<lparr>ImageId = ''ami-0c02fb55956c7d316'', MinCount = 1, MaxCount = 1,
             InstanceType_arg = instance_type, KeyName = ''my-python-key'',
             SecurityGroupIds = [sg_id],
             TagSpecifications =
               [\<lparr>ResourceType = ''instance'',
                 Tags = [\<lparr>Key = ''Name'', Value = ''MyPythonInstance''\<rparr>]\<rparr>]\<rparr>
           = (Inr (instance_id # others), w7)"
    and "api_wait_until_running p w7 instance_id = (Inr (), w8)"
    and "api_load p w8 instance_id = (Inr instance, w9)"
    and "public_ip_address instance = Some ip" and "ip \<noteq> []"
  shows "fst (main p s) = Returned \<and>
   files (snd (main p s)) =
     (files s)(''instance_connection.txt'' \<mapsto>
        concat (map (\<lambda>line. line @ ''\<newline>'')
          [''Instance ID: '' @ instance_id,
           ''Public IP: '' @ ip,
           ''Key Pair: my-python-key.pem'',
           ''Connect: ec2-user@'' @ ip]))"
proof -
  have "files s6 = files s5"
    using create_security_group_files [of p s5] assms(3) by simp
  moreover have "files s5 = files s4"
    using get_free_tier_instance_type_frame(2) [of p s4] assms(2) by simp
  moreover have "files s4 = files s"
    using check_key_pair_frame(2)
            [of p "''my-python-key''"
                "print (replicate 60 CHR ''='')
                   (print ''EC2 Instance Creator with Free-Tier Detection''
                      (print (replicate 60 CHR ''='') s))"] assms(1)
    by simp
  ultimately have "files s6 = files s"
    by simp
  with main_running_address [OF assms] show ?thesis
    by simp
qed

theorem report_file_written_witness:
  "fst (main (stub_ec2 [])
          ((start account)\<lparr>files := [''instance_connection.txt'' \<mapsto> ''a line of an earlier run'']\<rparr>))
     = Returned \<and>
   files (snd (main (stub_ec2 [])
          ((start account)\<lparr>files := [''instance_connection.txt'' \<mapsto> ''a line of an earlier run'']\<rparr>)))
     ''instance_connection.txt''
     = Some (''Instance ID: i-0123456789abcdef0\<newline>''
             @ ''Public IP: 203.0.113.5\<newline>''
             @ ''Key Pair: my-python-key.pem\<newline>''
             @ ''Connect: ec2-user@203.0.113.5\<newline>'')"
proof -
  let ?p = "stub_ec2 []"
  let ?s = "(start account)\<lparr>files := [''instance_connection.txt'' \<mapsto> ''a line of an earlier run'']\<rparr>"
  let ?banner = "print (replicate 60 CHR ''='')
        (print ''EC2 Instance Creator with Free-Tier Detection''
           (print (replicate 60 CHR ''='') ?s))"
  let ?s4 = "snd (check_key_pair ?p ''my-python-key'' ?banner)"
  let ?ty = "fst (get_free_tier_instance_type ?p ?s4)"
  let ?s5 = "snd (get_free_tier_instance_type ?p ?s4)"
  let ?s6 = "snd (create_security_group ?p ?s5)"
  let ?w = "account\<lparr>sw_groups := [(''python-sg-for-ssh'', ''sg-0'')]\<rparr>"
  have "fst (check_key_pair ?p ''my-python-key'' ?banner) = True"
    by (simp add: check_key_pair_def api_defs stub_ec2_def start_def account_def Let_def)
  then have key: "check_key_pair ?p ''my-python-key'' ?banner = (True, ?s4)"
    by (simp add: prod_eq_iff)
  have ty: "get_free_tier_instance_type ?p ?s4 = (?ty, ?s5)"
    by simp
  have "fst (create_security_group ?p ?s5) = Inr (Some ''sg-0'')"
    by (simp add: create_security_group_def get_free_tier_instance_type_def check_key_pair_def
          api_defs stub_ec2_def start_def account_def Let_def group_not_found_def)
  then have sg: "create_security_group ?p ?s5 = (Inr (Some ''sg-0''), ?s6)"
    by (simp add: prod_eq_iff)
  have named: "''sg-0'' \<noteq> []"
    by simp
  have w6: "world ?s6 = ?w"
    by (simp add: create_security_group_def get_free_tier_instance_type_def check_key_pair_def
          api_defs stub_ec2_def start_def account_def Let_def group_not_found_def)
  have launch:
    "api_create_instances ?p (world ?s6)
       \<lparr>ImageId = ''ami-0c02fb55956c7d316'', MinCount = 1, MaxCount = 1,
         InstanceType_arg = ?ty, KeyName = ''my-python-key'',
         SecurityGroupIds = [''sg-0''],
         TagSpecifications =
           [\<lparr>ResourceType = ''instance'',
             Tags = [\<lparr>Key = ''Name'', Value = ''MyPythonInstance''\<rparr>]\<rparr>]\<rparr>
       = (Inr (''i-0123456789abcdef0'' # []), ?w)"
    unfolding w6 by (simp add: stub_ec2_def)
  have running: "api_wait_until_running ?p ?w ''i-0123456789abcdef0'' = (Inr (), ?w)"
    by (simp add: stub_ec2_def)
  let ?instance = "\<lparr>state_Name = ''running'', public_ip_address = Some ''203.0.113.5''\<rparr>"
  have loaded: "api_load ?p ?w ''i-0123456789abcdef0'' = (Inr ?instance, ?w)"
    by (simp add: stub_ec2_def account_def)
  have address: "public_ip_address ?instance = Some ''203.0.113.5''"
    by simp
  have given: "''203.0.113.5'' \<noteq> []"
    by simp
  from report_file_written [OF key ty sg named launch running loaded address given]
  show ?thesis
    by simp
qed

section \<open>The listing\<close>

text \<open>
  Claim C9. For every response of \<^verbatim>\<open>describe_instances\<close>, \<^verbatim>\<open>list_ec2.py\<close> prints, after
  its two header lines, one line for each instance of each reservation, in the order of
  the response: the lines are those of the instances of the first reservation, then
  those of the second, and so on, with nothing left out and nothing reordered. The line
  of an instance contains its identifier, the name of its state and its type.
\<close>

theorem list_ec2_prints_every_instance:
  "(\<forall>response w'.
      api_describe_instances p (world s) = (Inr response, w')
      \<longrightarrow> list_ec2 p s =
            (Returned,
             s\<lparr>world := w',
               stdout := stdout s
                 @ [''Instance ID'' @ [CHR 0x09, CHR 0x09] @ ''State'' @ [CHR 0x09, CHR 0x09]
                    @ ''Type'',
                    ''----------------------------------------------'']
                 @ map instance_line (concat (map Instances (Reservations response))),
               calls := calls s @ [DescribeInstances]\<rparr>)) \<and>
   (\<forall>i. str_in (InstanceId i) (instance_line i) \<and>
        str_in (State_Name (State i)) (instance_line i) \<and>
        str_in (InstanceType_desc i) (instance_line i))"
proof (intro conjI allI impI)
  fix response w'
  assume "api_describe_instances p (world s) = (Inr response, w')"
  then show "list_ec2 p s =
            (Returned,
             s\<lparr>world := w',
               stdout := stdout s
                 @ [''Instance ID'' @ [CHR 0x09, CHR 0x09] @ ''State'' @ [CHR 0x09, CHR 0x09]
                    @ ''Type'',
                    ''----------------------------------------------'']
                 @ map instance_line (concat (map Instances (Reservations response))),
               calls := calls s @ [DescribeInstances]\<rparr>)"
    by (simp add: list_ec2_def api_defs Let_def print_reservations_eq print_def)
next
  fix i
  show "str_in (InstanceId i) (instance_line i)"
    using str_in_middle [of "InstanceId i" "[]"] by (simp add: instance_line_def)
  show "str_in (State_Name (State i)) (instance_line i)"
    using str_in_middle [of "State_Name (State i)" "InstanceId i @ [CHR 0x09]"]
    by (simp add: instance_line_def)
  show "str_in (InstanceType_desc i) (instance_line i)"
    using str_in_middle [of "InstanceType_desc i"
            "InstanceId i @ [CHR 0x09] @ State_Name (State i) @ [CHR 0x09, CHR 0x09]" "[]"]
    by (simp add: instance_line_def)
qed

theorem list_ec2_prints_every_instance_witness:
  "api_describe_instances (stub_ec2 []) account
     = (Inr \<lparr>Reservations = sw_reservations account\<rparr>, account) \<and>
   list_ec2 (stub_ec2 []) (start account) =
     (Returned,
      \<lparr>world = account,
       stdout =
         [''Instance ID'' @ [CHR 0x09, CHR 0x09] @ ''State'' @ [CHR 0x09, CHR 0x09] @ ''Type'',
          ''----------------------------------------------'',
          ''i-0b'' @ [CHR 0x09] @ ''running'' @ [CHR 0x09, CHR 0x09] @ ''t3.micro'',
          ''i-0a'' @ [CHR 0x09] @ ''stopped'' @ [CHR 0x09, CHR 0x09] @ ''t2.micro'',
          ''i-0c'' @ [CHR 0x09] @ ''pending'' @ [CHR 0x09, CHR 0x09] @ ''t2.micro''],
       files = Map.empty,
       calls = [DescribeInstances]\<rparr>)"
proof -
  have listed:
    "api_describe_instances (stub_ec2 []) (world (start account))
       = (Inr \<lparr>Reservations = sw_reservations account\<rparr>, account)"
    by (simp add: stub_ec2_def start_def)
  with list_ec2_prints_every_instance [of "stub_ec2 []" "start account"]
  have "list_ec2 (stub_ec2 []) (start account) =
     (Returned,
      (start account)\<lparr>world := account,
        stdout := stdout (start account)
          @ [''Instance ID'' @ [CHR 0x09, CHR 0x09] @ ''State'' @ [CHR 0x09, CHR 0x09]
             @ ''Type'',
             ''----------------------------------------------'']
          @ map instance_line
              (concat (map Instances (Reservations \<lparr>Reservations = sw_reservations account\<rparr>))),
        calls := calls (start account) @ [DescribeInstances]\<rparr>)"
    by blast
  with listed show ?thesis
    by (simp add: start_def account_def instance_line_def)
qed

section \<open>The limit of the capability query\<close>

text \<open>
  Claim C10, as the code has it. The only call of \<^verbatim>\<open>get_free_tier_instance_type\<close> is the
  capability query for free-tier eligible types with \<^verbatim>\<open>MaxResults=5\<close>. When that
  query answers with a non-empty list, the selected type is the first entry of the
  answer, hence one of its first five entries.
\<close>

theorem instance_type_query_limit:
  "calls (snd (get_free_tier_instance_type p s)) =
     calls s @ [DescribeInstanceTypes [\<lparr>Name = ''free-tier-eligible'', Values = [''true'']\<rparr>] 5] \<and>
   (\<forall>response w'.
      api_describe_instance_types p (world s)
        [\<lparr>Name = ''free-tier-eligible'', Values = [''true'']\<rparr>] 5 = (Inr response, w') \<and>
      InstanceTypes response \<noteq> []
      \<longrightarrow> fst (get_free_tier_instance_type p s) = InstanceType (hd (InstanceTypes response)) \<and>
          fst (get_free_tier_instance_type p s)
            \<in> set (take 5 (map InstanceType (InstanceTypes response))))"
proof (intro conjI allI impI)
  show "calls (snd (get_free_tier_instance_type p s)) =
     calls s @ [DescribeInstanceTypes [\<lparr>Name = ''free-tier-eligible'', Values = [''true'']\<rparr>] 5]"
    by (rule get_free_tier_instance_type_frame(1))
next
  fix response w'
  assume h: "api_describe_instance_types p (world s)
        [\<lparr>Name = ''free-tier-eligible'', Values = [''true'']\<rparr>] 5 = (Inr response, w') \<and>
      InstanceTypes response \<noteq> []"
  then obtain t ts where ts: "InstanceTypes response = t # ts"
    by (cases "InstanceTypes response") auto
  with h show first:
    "fst (get_free_tier_instance_type p s) = InstanceType (hd (InstanceTypes response))"
    by (simp add: get_free_tier_instance_type_def api_defs Let_def)
  show "fst (get_free_tier_instance_type p s)
          \<in> set (take 5 (map InstanceType (InstanceTypes response)))"
    unfolding first by (simp add: ts)
qed

theorem instance_type_query_limit_witness:
  "api_describe_instance_types (stub_ec2 [])
     (account\<lparr>sw_types := [''t1'', ''t2'', ''t3'', ''t4'', ''t5'', ''t6'', ''t7'']\<rparr>)
     [\<lparr>Name = ''free-tier-eligible'', Values = [''true'']\<rparr>] 5
     = (Inr \<lparr>InstanceTypes = map (\<lambda>t. \<lparr>InstanceType = t\<rparr>) [''t1'', ''t2'', ''t3'', ''t4'', ''t5'']\<rparr>,
        account\<lparr>sw_types := [''t1'', ''t2'', ''t3'', ''t4'', ''t5'', ''t6'', ''t7'']\<rparr>) \<and>
   fst (get_free_tier_instance_type (stub_ec2 [])
          (start (account\<lparr>sw_types := [''t1'', ''t2'', ''t3'', ''t4'', ''t5'', ''t6'', ''t7'']\<rparr>)))
     = ''t1'' \<and>
   calls (snd (get_free_tier_instance_type (stub_ec2 [])
          (start (account\<lparr>sw_types := [''t1'', ''t2'', ''t3'', ''t4'', ''t5'', ''t6'', ''t7'']\<rparr>))))
     = [DescribeInstanceTypes [\<lparr>Name = ''free-tier-eligible'', Values = [''true'']\<rparr>] 5]"
proof -
  let ?w = "account\<lparr>sw_types := [''t1'', ''t2'', ''t3'', ''t4'', ''t5'', ''t6'', ''t7'']\<rparr>"
  let ?response =
    "\<lparr>InstanceTypes = map (\<lambda>t. \<lparr>InstanceType = t\<rparr>) [''t1'', ''t2'', ''t3'', ''t4'', ''t5'']\<rparr>"
  have listed:
    "api_describe_instance_types (stub_ec2 []) (world (start ?w))
       [\<lparr>Name = ''free-tier-eligible'', Values = [''true'']\<rparr>] 5 = (Inr ?response, ?w)"
    by (simp add: stub_ec2_def start_def account_def)
  have some: "InstanceTypes ?response \<noteq> []"
    by simp
  note fact = instance_type_query_limit [of "stub_ec2 []" "start ?w"]
  from fact listed some
  have "fst (get_free_tier_instance_type (stub_ec2 []) (start ?w))
          = InstanceType (hd (InstanceTypes ?response))"
    by blast
  then have "fst (get_free_tier_instance_type (stub_ec2 []) (start ?w)) = ''t1''"
    by simp
  moreover from fact
  have "calls (snd (get_free_tier_instance_type (stub_ec2 []) (start ?w))) =
     calls (start ?w)
     @ [DescribeInstanceTypes [\<lparr>Name = ''free-tier-eligible'', Values = [''true'']\<rparr>] 5]"
    by blast
  ultimately show ?thesis
    using listed by (simp add: start_def)
qed

text \<open>
  Claim C10 itself speaks of every provider state. Where the provider reports no eligible type
  the selected type is the fallback \<^verbatim>\<open>t3.micro\<close>, which is none of the reported types.
\<close>

theorem fallback_type_not_reported:
  "api_describe_instance_types (stub_ec2 []) (account\<lparr>sw_types := []\<rparr>)
     [\<lparr>Name = ''free-tier-eligible'', Values = [''true'']\<rparr>] 5
     = (Inr \<lparr>InstanceTypes = []\<rparr>, account\<lparr>sw_types := []\<rparr>) \<and>
   fst (get_free_tier_instance_type (stub_ec2 []) (start (account\<lparr>sw_types := []\<rparr>)))
     = ''t3.micro'' \<and>
   fst (get_free_tier_instance_type (stub_ec2 []) (start (account\<lparr>sw_types := []\<rparr>)))
     \<notin> set (take 5 (sw_types (account\<lparr>sw_types := []\<rparr>)))"
  by (simp add: get_free_tier_instance_type_def api_defs stub_ec2_def start_def account_def)

end
